theory Spec2Isabelle
  imports Main "HOL-Library.Word"
begin

unbundle bit_operations_syntax

section \<open>Host failures and errno values\<close>

text \<open>
  The C code can stop the host process instead of returning: a failed \<open>assert\<close>, a
  dereference of a null pointer, an access outside an array, a use of a freed object, an
  error reported to \<open>error_abort\<close>.
  Each is a value of \<open>fault\<close>; a function that can fail this way returns
  \<open>fault + 'a\<close>.
\<close>

datatype fault = AssertFailed | NullDeref | OutOfBounds | UseAfterFree | Aborted

text \<open>The errno values of the host C library (Linux).\<close>

definition ENXIO :: int where "ENXIO = 6"
definition EAGAIN :: int where "EAGAIN = 11"
definition EINVAL :: int where "EINVAL = 22"

text \<open>\<open>BITS_PER_LONG\<close>, \<open>BIT_WORD\<close>, \<open>BIT_MASK\<close> and \<open>BITS_TO_LONGS\<close> of
  \<open>qemu/bitops.h\<close> on an LP64 host: an \<open>unsigned long\<close> is a \<open>64 word\<close>.\<close>

definition BITS_PER_LONG :: nat where "BITS_PER_LONG = 64"

definition BIT_WORD :: "nat \<Rightarrow> nat" where
  "BIT_WORD nr = nr div BITS_PER_LONG"

definition BIT_MASK :: "nat \<Rightarrow> 64 word" where
  "BIT_MASK nr = push_bit (nr mod BITS_PER_LONG) 1"

definition BITS_TO_LONGS :: "nat \<Rightarrow> nat" where
  "BITS_TO_LONGS nr = (nr + BITS_PER_LONG - 1) div BITS_PER_LONG"

section \<open>SynIC: the data model\<close>

text \<open>
  The constants of the Hyper-V protocol header (\<open>hyperv-proto.h\<close>) that this file uses.
  The header is outside this file, so the functions below take the constants as a
  parameter \<open>P\<close>.
\<close>

record hv_proto =
  HV_MESSAGE_NONE :: "32 word"
  HV_MESSAGE_FLAG_PENDING :: "8 word"
  HV_EVENT_FLAGS_COUNT :: nat

text \<open>
  Modelled from the spec: \<open>struct hyperv_message\<close>, a slot of the message page, declared
  in the protocol header. The spec gives a slot a type, flags and a payload.
\<close>

record hyperv_message =
  message_type :: "32 word"
  message_flags :: "8 word"
  payload :: "8 word list"

datatype staged_state = HV_STAGED_MSG_FREE | HV_STAGED_MSG_BUSY | HV_STAGED_MSG_POSTED

text \<open>\<open>HvSintStagedMessage\<close>. The callback is a function pointer and \<open>cb_data\<close> an
  opaque pointer: both are modelled by their identity.\<close>

record HvSintStagedMessage =
  msg :: hyperv_message
  cb :: nat
  cb_data :: nat
  status :: int
  state :: staged_state

text \<open>
  \<open>struct SynICState\<close>. The message page is the array \<open>msg_page->slot[]\<close>. The event
  page is kept as the flat array of \<open>unsigned long\<close> that its slots lie in:
  \<open>event_page->slot[s].flags[i]\<close> is the word at \<open>s * BITS_TO_LONGS HV_EVENT_FLAGS_COUNT + i\<close>.
  The list of routes and its mutex are not modelled.
\<close>

record SynICState =
  cs :: nat
  sctl_enabled :: bool
  msg_page_addr :: "64 word"
  event_page_addr :: "64 word"
  msg_page :: "hyperv_message list"
  event_page :: "64 word list"

text \<open>\<open>struct HvSintRoute\<close>; the pointer \<open>synic\<close> is resolved by the state below.\<close>

record HvSintRoute =
  route_sint :: "32 word"
  gsi :: int
  staged_msg :: "HvSintStagedMessage option"
  refcount :: "32 word"

text \<open>
  What the code asks of its collaborators, in the order of the calls:
  \<^item> \<open>RunOnCpu c\<close>: \<open>async_run_on_cpu(c, cpu_post_msg, route)\<close>;
  \<^item> \<open>ScheduleBH\<close>: \<open>aio_bh_schedule_oneshot(ctx, sint_msg_bh, route)\<close>;
  \<^item> \<open>Callback f d st\<close>: the call \<open>f(d, st)\<close> of the completion callback;
  \<^item> \<open>SetDirtyMsgPage\<close>, \<open>SetDirtyEventPage\<close>: \<open>memory_region_set_dirty\<close> on the page;
  \<^item> \<open>EventNotifierSet\<close>: \<open>event_notifier_set(&route->sint_set_notifier)\<close>, which raises
    the interrupt bound to the route;
  \<^item> \<open>ReleaseVirq g\<close>: the irqfd of GSI \<open>g\<close> is removed and the GSI released;
  \<^item> \<open>RouteFreed\<close>: the route is unlinked from its SynIC and freed.
\<close>

datatype effect =
    RunOnCpu nat
  | ScheduleBH
  | Callback nat nat int
  | SetDirtyMsgPage
  | SetDirtyEventPage
  | EventNotifierSet
  | ReleaseVirq int
  | RouteFreed

text \<open>One route, the SynIC it points to, whether the route has been freed, and the
  calls made so far.\<close>

record hv_state =
  route :: HvSintRoute
  synic :: SynICState
  freed :: bool
  trace :: "effect list"

section \<open>SynIC: reference counting and the interrupt of a route\<close>

text \<open>\<open>hyperv_sint_route_ref\<close>: \<open>refcount\<close> is an \<open>unsigned\<close>, so \<open>++\<close> wraps.\<close>

definition hyperv_sint_route_ref :: "hv_state \<Rightarrow> hv_state" where
  "hyperv_sint_route_ref s = s\<lparr>route := (route s)\<lparr>refcount := refcount (route s) + 1\<rparr>\<rparr>"

text \<open>\<open>hyperv_sint_route_unref\<close> on a non-null route.\<close>

definition hyperv_sint_route_unref :: "hv_state \<Rightarrow> fault + hv_state" where
  "hyperv_sint_route_unref s =
     (if refcount (route s) = 0 then Inl AssertFailed
      else
        let r = (route s)\<lparr>refcount := refcount (route s) - 1\<rparr> in
        if refcount r \<noteq> 0 then Inr (s\<lparr>route := r\<rparr>)
        else Inr (s\<lparr>route := r, freed := True,
                    trace := trace s @ (if gsi r \<noteq> 0 then [ReleaseVirq (gsi r)] else [])
                                     @ [RouteFreed]\<rparr>))"

text \<open>\<open>hyperv_sint_route_set_sint\<close>. \<open>ev_ret\<close> is what \<open>event_notifier_set\<close> returns.\<close>

definition hyperv_sint_route_set_sint :: "int \<Rightarrow> hv_state \<Rightarrow> int \<times> hv_state" where
  "hyperv_sint_route_set_sint ev_ret s =
     (if gsi (route s) = 0 then (0, s)
      else (ev_ret, s\<lparr>trace := trace s @ [EventNotifierSet]\<rparr>))"

section \<open>SynIC: the staged message\<close>

definition set_staged :: "HvSintStagedMessage \<Rightarrow> hv_state \<Rightarrow> hv_state" where
  "set_staged sm s = s\<lparr>route := (route s)\<lparr>staged_msg := Some sm\<rparr>\<rparr>"

text \<open>\<open>sint_msg_bh\<close>, the bottom half that completes a staged message.\<close>

definition sint_msg_bh :: "hv_state \<Rightarrow> fault + hv_state" where
  "sint_msg_bh s =
     (if freed s then Inl UseAfterFree
      else case staged_msg (route s) of
        None \<Rightarrow> Inl NullDeref
      | Some sm \<Rightarrow>
          if state sm \<noteq> HV_STAGED_MSG_POSTED then Inr s
          else
            let s1 = s\<lparr>trace := trace s @ [Callback (cb sm) (cb_data sm) (status sm)]\<rparr>;
                s2 = set_staged (sm\<lparr>status := 0, state := HV_STAGED_MSG_FREE\<rparr>) s1
            in hyperv_sint_route_unref s2)"

text \<open>\<open>cpu_post_msg\<close>, run on the vCPU thread; the label \<open>posted\<close> is \<open>cpu_post_msg_posted\<close>.\<close>

definition cpu_post_msg_posted :: "HvSintStagedMessage \<Rightarrow> bool \<Rightarrow> hv_state \<Rightarrow> hv_state" where
  "cpu_post_msg_posted sm wait_for_sint_ack s =
     (let s1 = set_staged (sm\<lparr>state := HV_STAGED_MSG_POSTED\<rparr>) s in
      if \<not> wait_for_sint_ack then s1\<lparr>trace := trace s1 @ [ScheduleBH]\<rparr> else s1)"

definition set_msg_slot :: "nat \<Rightarrow> hyperv_message \<Rightarrow> hv_state \<Rightarrow> hv_state" where
  "set_msg_slot i m s = s\<lparr>synic := (synic s)\<lparr>msg_page := (msg_page (synic s))[i := m]\<rparr>\<rparr>"

definition cpu_post_msg :: "hv_proto \<Rightarrow> int \<Rightarrow> hv_state \<Rightarrow> fault + hv_state" where
  "cpu_post_msg P ev_ret s =
     (if freed s then Inl UseAfterFree
      else case staged_msg (route s) of
        None \<Rightarrow> Inl NullDeref
      | Some sm \<Rightarrow>
          if state sm \<noteq> HV_STAGED_MSG_BUSY then Inl AssertFailed
          else if msg_page_addr (synic s) = 0 then
            Inr (cpu_post_msg_posted (sm\<lparr>status := - ENXIO\<rparr>) False s)
          else
            let i = unat (route_sint (route s)) in
            if length (msg_page (synic s)) \<le> i then Inl OutOfBounds
            else
              let dst_msg = msg_page (synic s) ! i in
              if message_type dst_msg \<noteq> HV_MESSAGE_NONE P then
                let s1 = set_msg_slot i
                           (dst_msg\<lparr>message_flags :=
                              message_flags dst_msg OR HV_MESSAGE_FLAG_PENDING P\<rparr>) s;
                    s2 = s1\<lparr>trace := trace s1 @ [SetDirtyMsgPage]\<rparr>
                in Inr (cpu_post_msg_posted (sm\<lparr>status := - EAGAIN\<rparr>) True s2)
              else
                let s1 = set_msg_slot i (msg sm) s;
                    (ret, s2) = hyperv_sint_route_set_sint ev_ret s1;
                    s3 = s2\<lparr>trace := trace s2 @ [SetDirtyMsgPage]\<rparr>
                in Inr (cpu_post_msg_posted (sm\<lparr>status := ret\<rparr>) False s3))"

text \<open>\<open>hyperv_post_msg\<close>. The compare-and-swap is one step of the model.\<close>

definition hyperv_post_msg :: "hv_state \<Rightarrow> hyperv_message \<Rightarrow> fault + (int \<times> hv_state)" where
  "hyperv_post_msg s src_msg =
     (if freed s then Inl UseAfterFree
      else case staged_msg (route s) of
        None \<Rightarrow> Inl AssertFailed
      | Some sm \<Rightarrow>
          if state sm \<noteq> HV_STAGED_MSG_FREE then Inr (- EAGAIN, s)
          else
            let s1 = set_staged (sm\<lparr>state := HV_STAGED_MSG_BUSY, msg := src_msg\<rparr>) s;
                s2 = hyperv_sint_route_ref s1
            in Inr (0, s2\<lparr>trace := trace s2 @ [RunOnCpu (cs (synic s2))]\<rparr>))"

text \<open>\<open>sint_ack_handler\<close>: the guest acknowledged the previous message.\<close>

definition sint_ack_handler :: "hv_state \<Rightarrow> hv_state" where
  "sint_ack_handler s = s\<lparr>trace := trace s @ [ScheduleBH]\<rparr>"

section \<open>SynIC: event flags\<close>

text \<open>
  \<open>hyperv_set_event_flag\<close>. \<open>eventno\<close> is an \<open>unsigned\<close>. The word \<open>flags[set_idx]\<close> of
  the route's slot is the word \<open>sint * BITS_TO_LONGS HV_EVENT_FLAGS_COUNT + set_idx\<close> of the
  page; an index outside the page is a fault. \<open>qatomic_fetch_or\<close> is one step of the model.
\<close>

definition hyperv_set_event_flag ::
    "hv_proto \<Rightarrow> int \<Rightarrow> hv_state \<Rightarrow> 32 word \<Rightarrow> fault + (int \<times> hv_state)" where
  "hyperv_set_event_flag P ev_ret s eventno =
     (if freed s then Inl UseAfterFree
      else if HV_EVENT_FLAGS_COUNT P < unat eventno then Inr (- EINVAL, s)
      else if \<not> sctl_enabled (synic s) \<or> event_page_addr (synic s) = 0 then Inr (- ENXIO, s)
      else
        let set_idx = BIT_WORD (unat eventno);
            set_mask = BIT_MASK (unat eventno);
            i = unat (route_sint (route s)) * BITS_TO_LONGS (HV_EVENT_FLAGS_COUNT P) + set_idx
        in
        if length (event_page (synic s)) \<le> i then Inl OutOfBounds
        else
          let old = event_page (synic s) ! i;
              s1 = s\<lparr>synic := (synic s)\<lparr>event_page := (event_page (synic s))[i := old OR set_mask]\<rparr>\<rparr>
          in
          if old AND set_mask \<noteq> set_mask then
            Inr (hyperv_sint_route_set_sint ev_ret (s1\<lparr>trace := trace s1 @ [SetDirtyEventPage]\<rparr>))
          else Inr (0, s1))"

text \<open>Whether event flag \<open>n\<close> of synthetic interrupt \<open>si\<close> is set in an event page.\<close>

definition event_flag :: "hv_proto \<Rightarrow> 64 word list \<Rightarrow> nat \<Rightarrow> nat \<Rightarrow> bool" where
  "event_flag P page si n =
     bit (page ! (si * BITS_TO_LONGS (HV_EVENT_FLAGS_COUNT P) + n div BITS_PER_LONG))
         (n mod BITS_PER_LONG)"

text \<open>The completion callbacks among the calls made, in order.\<close>

definition callbacks :: "effect list \<Rightarrow> effect list" where
  "callbacks t = filter (\<lambda>e. case e of Callback f d st \<Rightarrow> True | _ \<Rightarrow> False) t"

section \<open>Virtual trust levels: constants and register images\<close>

text \<open>
  The hypercall status codes this file returns, an enumeration of the protocol header.
\<close>

datatype hv_status =
    HV_STATUS_SUCCESS
  | HV_STATUS_INVALID_HYPERCALL_CODE
  | HV_STATUS_INVALID_HYPERCALL_INPUT
  | HV_STATUS_INVALID_PARAMETER
  | HV_STATUS_INVALID_PARTITION_ID
  | HV_STATUS_INVALID_VP_INDEX

text \<open>
  The constants of the protocol header that the VTL code uses, taken as a parameter \<open>V\<close>
  like the constants \<open>P\<close> above.
\<close>

record hv_vsm_proto =
  HV_PARTITION_ID_SELF :: "64 word"
  HV_VP_INDEX_SELF :: "32 word"
  HV_SINT_COUNT :: nat
  HV_STIMER_COUNT :: nat
  HV_NUM_VTLS :: nat

text \<open>
  The constants of the x86 target headers (\<open>target/i386/cpu.h\<close> and the KVM and exec
  headers) that this file uses, taken as a parameter \<open>Q\<close>.
\<close>

record x86_consts =
  DESC_TYPE_SHIFT :: nat
  DESC_DPL_SHIFT :: nat
  DESC_B_SHIFT :: nat
  DESC_L_SHIFT :: nat
  DESC_S_MASK :: "32 word"
  DESC_P_MASK :: "32 word"
  DESC_G_MASK :: "32 word"
  DESC_AVL_MASK :: "32 word"
  MSR_IA32_APICBASE_BSP :: "64 word"
  KVM_MP_STATE_RUNNABLE :: "32 word"
  EXCP_HALTED :: int

text \<open>The indices of \<open>env->regs[]\<close> and \<open>env->segs[]\<close>, enumerations of the target header.\<close>

datatype x86_reg = R_EAX | R_ECX | R_EDX | R_EBX | R_ESP | R_EBP | R_ESI | R_EDI
  | R_R8 | R_R9 | R_R10 | R_R11 | R_R12 | R_R13 | R_R14 | R_R15

datatype x86_seg = R_ES | R_CS | R_SS | R_DS | R_FS | R_GS

text \<open>
  \<open>SegmentCache\<close> and \<open>CPUX86State\<close> are declared in the target header, outside this
  file. Only the fields this file reads or writes are modelled; \<open>other_state\<close> stands
  for all the rest of the structure. Each field has the width of its counterpart in the
  structures this file declares itself (\<open>hv_x64_segment_register\<close>,
  \<open>kvm_hv_vcpu_per_vtl_state\<close>). An array is a function of its index.
\<close>

record SegmentCache =
  selector :: "16 word"
  base :: "64 word"
  limit :: "32 word"
  flags :: "32 word"

record CPUX86State =
  regs :: "x86_reg \<Rightarrow> 64 word"
  eip :: "64 word"
  eflags :: "64 word"
  segs :: "x86_seg \<Rightarrow> SegmentCache"
  ldt :: SegmentCache
  tr :: SegmentCache
  gdt :: SegmentCache
  idt :: SegmentCache
  cr :: "nat \<Rightarrow> 64 word"
  dr :: "nat \<Rightarrow> 64 word"
  efer :: "64 word"
  pat :: "64 word"
  mp_state :: "32 word"
  gsbase :: "64 word"
  fsbase :: "64 word"
  kernelgsbase :: "64 word"
  tsc_aux :: "64 word"
  sysenter_cs :: "64 word"
  sysenter_esp :: "64 word"
  sysenter_eip :: "64 word"
  star :: "64 word"
  lstar :: "64 word"
  cstar :: "64 word"
  fmask :: "64 word"
  msr_hv_synic_control :: "64 word"
  msr_hv_synic_evt_page :: "64 word"
  msr_hv_synic_msg_page :: "64 word"
  msr_hv_synic_sint :: "nat \<Rightarrow> 64 word"
  msr_hv_stimer_config :: "nat \<Rightarrow> 64 word"
  msr_hv_stimer_count :: "nat \<Rightarrow> 64 word"
  msr_hv_guest_os_id :: "64 word"
  msr_hv_hypercall :: "64 word"
  msr_hv_tsc :: "64 word"
  msr_hv_vapic :: "64 word"
  exception_nr :: "32 word"
  interrupt_injected :: "32 word"
  soft_interrupt :: "8 word"
  exception_pending :: "8 word"
  exception_injected :: "8 word"
  has_error_code :: "8 word"
  exception_has_payload :: "8 word"
  exception_payload :: "64 word"
  triple_fault_pending :: "8 word"
  ins_len :: "32 word"
  sipi_vector :: "32 word"
  vsm_code_page_offsets64 :: "64 word"
  vsm_code_page_offsets32 :: "64 word"
  other_state :: nat

text \<open>\<open>struct hv_x64_segment_register\<close>; the bit-fields of the union are its members, and
  \<open>_long\<close>, \<open>_default\<close> are \<open>seg_long\<close>, \<open>seg_default\<close>.\<close>

record hv_x64_segment_register =
  sr_base :: "64 word"
  sr_limit :: "32 word"
  sr_selector :: "16 word"
  segment_type :: "4 word"
  non_system_segment :: "1 word"
  descriptor_privilege_level :: "2 word"
  present :: "1 word"
  reserved :: "4 word"
  available :: "1 word"
  seg_long :: "1 word"
  seg_default :: "1 word"
  granularity :: "1 word"

text \<open>\<open>struct hv_x64_table_register\<close>.\<close>

record hv_x64_table_register =
  tbl_pad :: "16 word list"
  tbl_limit :: "16 word"
  tbl_base :: "64 word"

text \<open>\<open>struct kvm_hv_vcpu_per_vtl_state\<close>; its members carry the prefix \<open>priv_\<close>.\<close>

record kvm_hv_vcpu_per_vtl_state =
  priv_rip :: "64 word"
  priv_rsp :: "64 word"
  priv_rflags :: "64 word"
  priv_efer :: "64 word"
  priv_cr0 :: "64 word"
  priv_cr3 :: "64 word"
  priv_cr4 :: "64 word"
  priv_dr7 :: "64 word"
  priv_msr_cr_pat :: "64 word"
  priv_msr_kernel_gsbase :: "64 word"
  priv_msr_gsbase :: "64 word"
  priv_msr_fsbase :: "64 word"
  priv_msr_tsc_aux :: "64 word"
  priv_msr_sysenter_cs :: "64 word"
  priv_msr_sysenter_esp :: "64 word"
  priv_msr_sysenter_eip :: "64 word"
  priv_msr_star :: "64 word"
  priv_msr_lstar :: "64 word"
  priv_msr_cstar :: "64 word"
  priv_msr_sfmask :: "64 word"
  priv_msr_hv_synic_control :: "64 word"
  priv_msr_hv_synic_evt_page :: "64 word"
  priv_msr_hv_synic_msg_page :: "64 word"
  priv_msr_hv_synic_sint :: "nat \<Rightarrow> 64 word"
  priv_msr_hv_stimer_config :: "nat \<Rightarrow> 64 word"
  priv_msr_hv_stimer_count :: "nat \<Rightarrow> 64 word"
  priv_msr_hv_guest_os_id :: "64 word"
  priv_msr_hv_hypercall :: "64 word"
  priv_msr_hv_tsc :: "64 word"
  priv_apic_base :: "64 word"
  priv_cs :: hv_x64_segment_register
  priv_ds :: hv_x64_segment_register
  priv_es :: hv_x64_segment_register
  priv_fs :: hv_x64_segment_register
  priv_gs :: hv_x64_segment_register
  priv_ss :: hv_x64_segment_register
  priv_tr :: hv_x64_segment_register
  priv_ldtr :: hv_x64_segment_register
  priv_idtr :: hv_x64_table_register
  priv_gdtr :: hv_x64_table_register
  priv_exception_nr :: "32 word"
  priv_interrupt_injected :: "32 word"
  priv_soft_interrupt :: "8 word"
  priv_exception_pending :: "8 word"
  priv_exception_injected :: "8 word"
  priv_has_error_code :: "8 word"
  priv_exception_has_payload :: "8 word"
  priv_exception_payload :: "64 word"
  priv_triple_fault_pending :: "8 word"
  priv_ins_len :: "32 word"
  priv_sipi_vector :: "32 word"

text \<open>\<open>struct hv_init_vp_context\<close>; its members carry the prefix \<open>ctx_\<close>.\<close>

record hv_init_vp_context =
  ctx_rip :: "64 word"
  ctx_rsp :: "64 word"
  ctx_rflags :: "64 word"
  ctx_cs :: hv_x64_segment_register
  ctx_ds :: hv_x64_segment_register
  ctx_es :: hv_x64_segment_register
  ctx_fs :: hv_x64_segment_register
  ctx_gs :: hv_x64_segment_register
  ctx_ss :: hv_x64_segment_register
  ctx_tr :: hv_x64_segment_register
  ctx_ldtr :: hv_x64_segment_register
  ctx_idtr :: hv_x64_table_register
  ctx_gdtr :: hv_x64_table_register
  ctx_efer :: "64 word"
  ctx_cr0 :: "64 word"
  ctx_cr3 :: "64 word"
  ctx_cr4 :: "64 word"
  ctx_msr_cr_pat :: "64 word"



text \<open>\<open>union hv_register_vsm_partition_status\<close>, with its view as one 64-bit value.\<close>

record hv_register_vsm_partition_status =
  enabled_vtl_set :: "16 word"
  maximum_vtl :: "4 word"
  mbec_enabled_vtl_set :: "16 word"

definition partition_status_as_u64 :: "hv_register_vsm_partition_status \<Rightarrow> 64 word" where
  "partition_status_as_u64 st =
     ucast (enabled_vtl_set st) OR push_bit 16 (ucast (maximum_vtl st))
       OR push_bit 20 (ucast (mbec_enabled_vtl_set st))"

text \<open>
  Modelled from the spec: \<open>union hv_register_vsm_vp_status\<close>, declared in the protocol
  header. The spec gives the shadow state an active VTL and an enabled-VTL bitmap; the view
  as one 64-bit value puts them at bits 0 to 3 and 16 to 31, as the TLFS does.
\<close>

record hv_register_vsm_vp_status =
  vp_active_vtl :: "4 word"
  vp_enabled_vtl_set :: "16 word"

definition vp_status_as_u64 :: "hv_register_vsm_vp_status \<Rightarrow> 64 word" where
  "vp_status_as_u64 st =
     ucast (vp_active_vtl st) OR push_bit 16 (ucast (vp_enabled_vtl_set st))"

text \<open>
  \<open>struct VpVsmState\<close>. \<open>vsm_vtl_config[i]\<close> is kept as its 64-bit value. \<open>vp_assist\<close>
  is \<open>None\<close> for the null pointer; for a mapped page it holds the member
  \<open>vtl_control.vtl_entry_reason\<close> of the page. The back pointer and the notifier are not
  modelled.
\<close>

record VpVsmState =
  vsm_vp_status :: hv_register_vsm_vp_status
  vsm_vtl_config :: "nat \<Rightarrow> 64 word"
  priv_state :: kvm_hv_vcpu_per_vtl_state
  vp_assist :: "32 word option"

text \<open>
  A \<open>CPUState\<close> with the \<open>X86CPU\<close> around it and its QOM child \<open>vp-vsm\<close>.
  \<open>hyperv_vp_index\<close> is what the function of that name returns for the CPU; \<open>apic_base\<close>
  is what \<open>cpu_get_apic_base\<close> reads and \<open>cpu_set_apic_base\<close> writes.
\<close>

record CPUState =
  hyperv_vp_index :: "32 word"
  stop :: bool
  stopped :: bool
  env :: CPUX86State
  vp_vsm :: "VpVsmState option"
  apic_base :: "64 word"

text \<open>
  The CPUs of the machine by \<open>cpu_index\<close> (so \<open>qemu_get_cpu i\<close> is \<open>cpus w i\<close>, and a
  non-null \<open>CPUState *\<close> is the \<open>cpu_index\<close> of its CPU), and the global VSM variables
  of this file.
\<close>

record vsm_state =
  cpus :: "int \<Rightarrow> CPUState option"
  hv_vsm_partition_status :: hv_register_vsm_partition_status
  hv_vsm_partition_capabilities :: "64 word"
  hv_vsm_partition_config :: "nat \<Rightarrow> 64 word"

text \<open>\<open>enum hv_vtl_entry_reason\<close>.\<close>

definition HV_VTL_ENTRY_RESERVED :: "32 word" where "HV_VTL_ENTRY_RESERVED = 0"
definition HV_VTL_ENTRY_VTL_CALL :: "32 word" where "HV_VTL_ENTRY_VTL_CALL = 1"
definition HV_VTL_ENTRY_INTERRUPT :: "32 word" where "HV_VTL_ENTRY_INTERRUPT = 2"

section \<open>Virtual trust levels: segment registers and the initial state of a context\<close>

text \<open>\<open>hyperv_set_seg\<close> and \<open>hyperv_get_seg\<close>. The latter writes every member of
  \<open>*rhs\<close>, so its result does not depend on what \<open>*rhs\<close> held.\<close>

definition hyperv_set_seg ::
    "x86_consts \<Rightarrow> SegmentCache \<Rightarrow> hv_x64_segment_register \<Rightarrow> SegmentCache" where
  "hyperv_set_seg Q lhs rhs =
     lhs\<lparr>selector := sr_selector rhs,
         base := sr_base rhs,
         limit := sr_limit rhs,
         flags := push_bit (DESC_TYPE_SHIFT Q) (ucast (segment_type rhs))
               OR ucast (present rhs) * DESC_P_MASK Q
               OR push_bit (DESC_DPL_SHIFT Q) (ucast (descriptor_privilege_level rhs))
               OR push_bit (DESC_B_SHIFT Q) (ucast (seg_default rhs))
               OR ucast (non_system_segment rhs) * DESC_S_MASK Q
               OR push_bit (DESC_L_SHIFT Q) (ucast (seg_long rhs))
               OR ucast (granularity rhs) * DESC_G_MASK Q
               OR ucast (available rhs) * DESC_AVL_MASK Q\<rparr>"

definition hyperv_get_seg :: "x86_consts \<Rightarrow> SegmentCache \<Rightarrow> hv_x64_segment_register" where
  "hyperv_get_seg Q lhs =
     \<lparr>sr_base = base lhs,
      sr_limit = limit lhs,
      sr_selector = selector lhs,
      segment_type = ucast (drop_bit (DESC_TYPE_SHIFT Q) (flags lhs) AND 15),
      non_system_segment = (if flags lhs AND DESC_S_MASK Q \<noteq> 0 then 1 else 0),
      descriptor_privilege_level = ucast (drop_bit (DESC_DPL_SHIFT Q) (flags lhs) AND 3),
      present = (if flags lhs AND DESC_P_MASK Q \<noteq> 0 then 1 else 0),
      reserved = 0,
      available = (if flags lhs AND DESC_AVL_MASK Q \<noteq> 0 then 1 else 0),
      seg_long = ucast (drop_bit (DESC_L_SHIFT Q) (flags lhs) AND 1),
      seg_default = ucast (drop_bit (DESC_B_SHIFT Q) (flags lhs) AND 1),
      granularity = (if flags lhs AND DESC_G_MASK Q \<noteq> 0 then 1 else 0)\<rparr>"

text \<open>\<open>hyperv_set_vtl_cpu_state\<close>.\<close>

definition hyperv_set_vtl_cpu_state ::
    "x86_consts \<Rightarrow> CPUX86State \<Rightarrow> hv_init_vp_context \<Rightarrow> CPUX86State" where
  "hyperv_set_vtl_cpu_state Q e c =
     e\<lparr>regs := (regs e)(R_ESP := ctx_rsp c),
       eip := ctx_rip c,
       eflags := ctx_rflags c,
       segs := (segs e)
         (R_CS := hyperv_set_seg Q (segs e R_CS) (ctx_cs c),
          R_DS := hyperv_set_seg Q (segs e R_DS) (ctx_ds c),
          R_ES := hyperv_set_seg Q (segs e R_ES) (ctx_es c),
          R_FS := hyperv_set_seg Q (segs e R_FS) (ctx_fs c),
          R_GS := hyperv_set_seg Q (segs e R_GS) (ctx_gs c),
          R_SS := hyperv_set_seg Q (segs e R_SS) (ctx_ss c)),
       tr := hyperv_set_seg Q (tr e) (ctx_tr c),
       ldt := hyperv_set_seg Q (ldt e) (ctx_ldtr c),
       idt := (idt e)\<lparr>limit := ucast (tbl_limit (ctx_idtr c)), base := tbl_base (ctx_idtr c)\<rparr>,
       gdt := (gdt e)\<lparr>limit := ucast (tbl_limit (ctx_gdtr c)), base := tbl_base (ctx_gdtr c)\<rparr>,
       efer := ctx_efer c,
       cr := (cr e)(0 := ctx_cr0 c, 3 := ctx_cr3 c, 4 := ctx_cr4 c),
       pat := ctx_msr_cr_pat c,
       mp_state := KVM_MP_STATE_RUNNABLE Q,
       gsbase := sr_base (ctx_gs c),
       fsbase := sr_base (ctx_fs c)\<rparr>"

section \<open>Virtual trust levels: saving and restoring the private state\<close>

text \<open>The loop \<open>for (i = 0; i < n; i++) dst[i] = src[i]\<close>.\<close>

fun copy_array :: "nat \<Rightarrow> (nat \<Rightarrow> 'a) \<Rightarrow> (nat \<Rightarrow> 'a) \<Rightarrow> (nat \<Rightarrow> 'a)" where
  "copy_array 0 src dst = dst"
| "copy_array (Suc n) src dst = (copy_array n src dst)(n := src n)"

text \<open>The assignments of \<open>hyperv_save_priv_vtl_state\<close>, from \<open>env\<close> into \<open>priv_state\<close>.\<close>

definition save_priv_state ::
    "x86_consts \<Rightarrow> hv_vsm_proto \<Rightarrow> CPUX86State \<Rightarrow> kvm_hv_vcpu_per_vtl_state
       \<Rightarrow> kvm_hv_vcpu_per_vtl_state" where
  "save_priv_state Q V e ps =
     ps\<lparr>priv_msr_kernel_gsbase := kernelgsbase e,
        priv_msr_gsbase := gsbase e,
        priv_msr_fsbase := fsbase e,
        priv_msr_tsc_aux := tsc_aux e,
        priv_msr_sysenter_cs := sysenter_cs e,
        priv_msr_sysenter_esp := sysenter_esp e,
        priv_msr_sysenter_eip := sysenter_eip e,
        priv_msr_star := star e,
        priv_msr_lstar := lstar e,
        priv_msr_cstar := cstar e,
        priv_msr_sfmask := fmask e,
        priv_msr_cr_pat := pat e,
        priv_msr_hv_synic_control := msr_hv_synic_control e,
        priv_msr_hv_synic_evt_page := msr_hv_synic_evt_page e,
        priv_msr_hv_synic_msg_page := msr_hv_synic_msg_page e,
        priv_msr_hv_synic_sint :=
          copy_array (HV_SINT_COUNT V) (msr_hv_synic_sint e) (priv_msr_hv_synic_sint ps),
        priv_msr_hv_stimer_config :=
          copy_array (HV_STIMER_COUNT V) (msr_hv_stimer_config e) (priv_msr_hv_stimer_config ps),
        priv_msr_hv_stimer_count :=
          copy_array (HV_STIMER_COUNT V) (msr_hv_stimer_count e) (priv_msr_hv_stimer_count ps),
        priv_msr_hv_guest_os_id := msr_hv_guest_os_id e,
        priv_msr_hv_hypercall := msr_hv_hypercall e,
        priv_msr_hv_tsc := msr_hv_tsc e,
        priv_rip := eip e,
        priv_rsp := regs e R_ESP,
        priv_rflags := eflags e,
        priv_efer := efer e,
        priv_cr0 := cr e 0,
        priv_cr3 := cr e 3,
        priv_cr4 := cr e 4,
        priv_dr7 := dr e 7,
        priv_cs := hyperv_get_seg Q (segs e R_CS),
        priv_ds := hyperv_get_seg Q (segs e R_DS),
        priv_es := hyperv_get_seg Q (segs e R_ES),
        priv_fs := hyperv_get_seg Q (segs e R_FS),
        priv_gs := hyperv_get_seg Q (segs e R_GS),
        priv_ss := hyperv_get_seg Q (segs e R_SS),
        priv_tr := hyperv_get_seg Q (tr e),
        priv_ldtr := hyperv_get_seg Q (ldt e),
        priv_idtr := (priv_idtr ps)\<lparr>tbl_limit := ucast (limit (idt e)), tbl_base := base (idt e)\<rparr>,
        priv_gdtr := (priv_gdtr ps)\<lparr>tbl_limit := ucast (limit (gdt e)), tbl_base := base (gdt e)\<rparr>,
        priv_exception_nr := exception_nr e,
        priv_interrupt_injected := interrupt_injected e,
        priv_soft_interrupt := soft_interrupt e,
        priv_exception_pending := exception_pending e,
        priv_exception_injected := exception_injected e,
        priv_has_error_code := has_error_code e,
        priv_exception_has_payload := exception_has_payload e,
        priv_exception_payload := exception_payload e,
        priv_triple_fault_pending := triple_fault_pending e,
        priv_ins_len := ins_len e,
        priv_sipi_vector := sipi_vector e\<rparr>"

text \<open>\<open>hyperv_save_priv_vtl_state\<close>: \<open>get_vp_vsm\<close> gives a null pointer for a CPU without the
  child \<open>vp-vsm\<close>, and the function dereferences it.\<close>

definition hyperv_save_priv_vtl_state ::
    "x86_consts \<Rightarrow> hv_vsm_proto \<Rightarrow> CPUState \<Rightarrow> fault + CPUState" where
  "hyperv_save_priv_vtl_state Q V c =
     (case vp_vsm c of
        None \<Rightarrow> Inl NullDeref
      | Some v \<Rightarrow>
          Inr (c\<lparr>vp_vsm := Some (v\<lparr>priv_state := save_priv_state Q V (env c) (priv_state v)\<rparr>)\<rparr>))"

text \<open>The assignments of \<open>hyperv_restore_priv_vtl_state\<close> to \<open>env\<close> before it builds the
  context.\<close>

definition restore_priv_msrs ::
    "hv_vsm_proto \<Rightarrow> kvm_hv_vcpu_per_vtl_state \<Rightarrow> CPUX86State \<Rightarrow> CPUX86State" where
  "restore_priv_msrs V ps e =
     e\<lparr>kernelgsbase := priv_msr_kernel_gsbase ps,
       gsbase := priv_msr_gsbase ps,
       fsbase := priv_msr_fsbase ps,
       tsc_aux := priv_msr_tsc_aux ps,
       sysenter_cs := priv_msr_sysenter_cs ps,
       sysenter_esp := priv_msr_sysenter_esp ps,
       sysenter_eip := priv_msr_sysenter_eip ps,
       star := priv_msr_star ps,
       lstar := priv_msr_lstar ps,
       cstar := priv_msr_cstar ps,
       fmask := priv_msr_sfmask ps,
       msr_hv_synic_control := priv_msr_hv_synic_control ps,
       msr_hv_synic_evt_page := priv_msr_hv_synic_evt_page ps,
       msr_hv_synic_msg_page := priv_msr_hv_synic_msg_page ps,
       msr_hv_synic_sint :=
         copy_array (HV_SINT_COUNT V) (priv_msr_hv_synic_sint ps) (msr_hv_synic_sint e),
       msr_hv_stimer_config :=
         copy_array (HV_STIMER_COUNT V) (priv_msr_hv_stimer_config ps) (msr_hv_stimer_config e),
       msr_hv_stimer_count :=
         copy_array (HV_STIMER_COUNT V) (priv_msr_hv_stimer_count ps) (msr_hv_stimer_count e),
       msr_hv_guest_os_id := priv_msr_hv_guest_os_id ps,
       msr_hv_hypercall := priv_msr_hv_hypercall ps,
       msr_hv_tsc := priv_msr_hv_tsc ps,
       exception_nr := priv_exception_nr ps,
       interrupt_injected := priv_interrupt_injected ps,
       soft_interrupt := priv_soft_interrupt ps,
       exception_pending := priv_exception_pending ps,
       exception_injected := priv_exception_injected ps,
       has_error_code := priv_has_error_code ps,
       exception_has_payload := priv_exception_has_payload ps,
       exception_payload := priv_exception_payload ps,
       triple_fault_pending := priv_triple_fault_pending ps,
       ins_len := priv_ins_len ps,
       sipi_vector := priv_sipi_vector ps\<rparr>"

text \<open>The context that \<open>hyperv_restore_priv_vtl_state\<close> builds: \<open>memset\<close> to zero, then the
  members it copies from \<open>priv_state\<close>.\<close>

definition zero_segment_register :: hv_x64_segment_register where
  "zero_segment_register =
     \<lparr>sr_base = 0, sr_limit = 0, sr_selector = 0, segment_type = 0, non_system_segment = 0,
      descriptor_privilege_level = 0, present = 0, reserved = 0, available = 0, seg_long = 0,
      seg_default = 0, granularity = 0\<rparr>"

definition zero_table_register :: hv_x64_table_register where
  "zero_table_register = \<lparr>tbl_pad = [0, 0, 0], tbl_limit = 0, tbl_base = 0\<rparr>"

definition zero_vp_context :: hv_init_vp_context where
  "zero_vp_context =
     \<lparr>ctx_rip = 0, ctx_rsp = 0, ctx_rflags = 0,
      ctx_cs = zero_segment_register, ctx_ds = zero_segment_register,
      ctx_es = zero_segment_register, ctx_fs = zero_segment_register,
      ctx_gs = zero_segment_register, ctx_ss = zero_segment_register,
      ctx_tr = zero_segment_register, ctx_ldtr = zero_segment_register,
      ctx_idtr = zero_table_register, ctx_gdtr = zero_table_register,
      ctx_efer = 0, ctx_cr0 = 0, ctx_cr3 = 0, ctx_cr4 = 0, ctx_msr_cr_pat = 0\<rparr>"

definition restore_priv_context :: "kvm_hv_vcpu_per_vtl_state \<Rightarrow> hv_init_vp_context" where
  "restore_priv_context ps =
     zero_vp_context\<lparr>
       ctx_rip := priv_rip ps,
       ctx_rsp := priv_rsp ps,
       ctx_rflags := priv_rflags ps,
       ctx_efer := priv_efer ps,
       ctx_cr0 := priv_cr0 ps,
       ctx_cr3 := priv_cr3 ps,
       ctx_cr4 := priv_cr4 ps,
       ctx_msr_cr_pat := priv_msr_cr_pat ps,
       ctx_cs := priv_cs ps,
       ctx_ds := priv_ds ps,
       ctx_es := priv_es ps,
       ctx_fs := priv_fs ps,
       ctx_gs := priv_gs ps,
       ctx_ss := priv_ss ps,
       ctx_tr := priv_tr ps,
       ctx_ldtr := priv_ldtr ps,
       ctx_idtr := (priv_idtr ps)\<lparr>tbl_limit := tbl_limit (priv_idtr ps),
                                  tbl_base := tbl_base (priv_idtr ps)\<rparr>,
       ctx_gdtr := (priv_gdtr ps)\<lparr>tbl_limit := tbl_limit (priv_gdtr ps),
                                  tbl_base := tbl_base (priv_gdtr ps)\<rparr>\<rparr>"

text \<open>\<open>hyperv_restore_priv_vtl_state\<close>.\<close>

definition hyperv_restore_priv_vtl_state ::
    "x86_consts \<Rightarrow> hv_vsm_proto \<Rightarrow> CPUState \<Rightarrow> fault + CPUState" where
  "hyperv_restore_priv_vtl_state Q V c =
     (case vp_vsm c of
        None \<Rightarrow> Inl NullDeref
      | Some v \<Rightarrow>
          let e1 = restore_priv_msrs V (priv_state v) (env c);
              ctx = restore_priv_context (priv_state v);
              val = apic_base c OR MSR_IA32_APICBASE_BSP Q
          in Inr (c\<lparr>apic_base := val, env := hyperv_set_vtl_cpu_state Q e1 ctx\<rparr>))"

section \<open>Virtual trust levels: the switch\<close>

text \<open>\<open>get_active_vtl\<close> reads \<open>cpu->cpu_index\<close>.\<close>

definition get_active_vtl :: "int \<Rightarrow> int" where
  "get_active_vtl c = c"

text \<open>
  \<open>hyperv_vsm_vcpu\<close>. The \<open>uint32_t\<close> argument \<open>vtl\<close> comes from an \<open>int\<close> and goes back
  into the \<open>int\<close> parameter of \<open>qemu_get_cpu\<close>, so the lookup is by the \<open>int\<close>. The
  assertion calls \<open>hyperv_vp_index\<close> on what the lookup returned, also when that is the
  null pointer.
\<close>

definition hyperv_vsm_vcpu :: "vsm_state \<Rightarrow> int \<Rightarrow> int \<Rightarrow> fault + int option" where
  "hyperv_vsm_vcpu w vp vtl =
     (case cpus w vtl of
        None \<Rightarrow> Inl NullDeref
      | Some c \<Rightarrow>
          if hyperv_vp_index c \<noteq> word_of_int vtl then Inl AssertFailed else Inr (Some vtl))"

definition hyperv_vsm_vp_index :: "int \<Rightarrow> int" where
  "hyperv_vsm_vp_index c = c"

definition hyperv_get_next_vtl :: "vsm_state \<Rightarrow> int \<Rightarrow> fault + int option" where
  "hyperv_get_next_vtl w c = hyperv_vsm_vcpu w (hyperv_vsm_vp_index c) (get_active_vtl c + 1)"

definition hyperv_get_prev_vtl :: "vsm_state \<Rightarrow> int \<Rightarrow> fault + int option" where
  "hyperv_get_prev_vtl w c = hyperv_vsm_vcpu w (hyperv_vsm_vp_index c) (get_active_vtl c - 1)"

text \<open>
  \<open>hyperv_sync_shared_vtl_state\<close>. \<open>locked\<close> is what \<open>qemu_mutex_iothread_locked\<close>
  returns. \<open>env\<close> is the register state itself, so the calls that synchronise it with the
  kernel do not show. \<open>memcpy\<close> copies the whole \<open>CPUX86State\<close>.
\<close>

definition hyperv_sync_shared_vtl_state ::
    "x86_consts \<Rightarrow> hv_vsm_proto \<Rightarrow> bool \<Rightarrow> vsm_state \<Rightarrow> int \<Rightarrow> int \<Rightarrow> fault + vsm_state" where
  "hyperv_sync_shared_vtl_state Q V locked w active_cs next_cs =
     (if \<not> locked then Inr w
      else case cpus w active_cs of
        None \<Rightarrow> Inl NullDeref
      | Some a \<Rightarrow>
         (case cpus w next_cs of
            None \<Rightarrow> Inl NullDeref
          | Some n \<Rightarrow>
             (case hyperv_save_priv_vtl_state Q V n of
                Inl f \<Rightarrow> Inl f
              | Inr n1 \<Rightarrow>
                 (case hyperv_restore_priv_vtl_state Q V (n1\<lparr>env := env a\<rparr>) of
                    Inl f \<Rightarrow> Inl f
                  | Inr n2 \<Rightarrow> Inr (w\<lparr>cpus := (cpus w)(next_cs \<mapsto> n2)\<rparr>)))))"

text \<open>\<open>hyperv_hv_assist_page_enabled\<close>, \<open>hv_write_vtl_control\<close> and \<open>set_vtl_entry_reason\<close>
  on a non-null CPU.\<close>

definition hyperv_hv_assist_page_enabled :: "CPUState \<Rightarrow> bool" where
  "hyperv_hv_assist_page_enabled c =
     (case vp_vsm c of None \<Rightarrow> False | Some v \<Rightarrow> vp_assist v \<noteq> None)"

definition hv_write_vtl_control :: "CPUState \<Rightarrow> 32 word \<Rightarrow> fault + CPUState" where
  "hv_write_vtl_control c reason =
     (case vp_vsm c of
        None \<Rightarrow> Inl NullDeref
      | Some v \<Rightarrow>
          if vp_assist v = None then Inr c
          else Inr (c\<lparr>vp_vsm := Some (v\<lparr>vp_assist := Some reason\<rparr>)\<rparr>))"

definition set_vtl_entry_reason :: "vsm_state \<Rightarrow> int \<Rightarrow> 32 word \<Rightarrow> fault + vsm_state" where
  "set_vtl_entry_reason w c reason =
     (case cpus w c of
        None \<Rightarrow> Inl NullDeref
      | Some x \<Rightarrow>
          if hyperv_hv_assist_page_enabled x then
            (case hv_write_vtl_control x reason of
               Inl f \<Rightarrow> Inl f
             | Inr x' \<Rightarrow> Inr (w\<lparr>cpus := (cpus w)(c \<mapsto> x')\<rparr>))
          else Inr w)"

text \<open>
  Modelled from the spec: \<open>cpu_resume\<close> and \<open>qemu_cpu_stop\<close> of the virtual-CPU execution
  collaborator. Resuming a context makes it the running one; stopping it leaves it stopped.
\<close>

definition cpu_resume :: "int \<Rightarrow> vsm_state \<Rightarrow> vsm_state" where
  "cpu_resume c w =
     (case cpus w c of
        None \<Rightarrow> w
      | Some x \<Rightarrow> w\<lparr>cpus := (cpus w)(c \<mapsto> x\<lparr>stop := False, stopped := False\<rparr>)\<rparr>)"

definition qemu_cpu_stop :: "int \<Rightarrow> vsm_state \<Rightarrow> vsm_state" where
  "qemu_cpu_stop c w =
     (case cpus w c of
        None \<Rightarrow> w
      | Some x \<Rightarrow> w\<lparr>cpus := (cpus w)(c \<mapsto> x\<lparr>stop := False, stopped := True\<rparr>)\<rparr>)"

text \<open>\<open>switch_vtl\<close> takes the iothread lock around the whole sequence.\<close>

definition switch_vtl ::
    "x86_consts \<Rightarrow> hv_vsm_proto \<Rightarrow> vsm_state \<Rightarrow> int \<Rightarrow> int \<Rightarrow> fault + vsm_state" where
  "switch_vtl Q V w active_cs next_cs =
     (case hyperv_sync_shared_vtl_state Q V True w active_cs next_cs of
        Inl f \<Rightarrow> Inl f
      | Inr w1 \<Rightarrow> Inr (qemu_cpu_stop active_cs (cpu_resume next_cs w1)))"

text \<open>
  \<open>hyperv_hcall_vtl_call\<close>. The trace call evaluates \<open>get_active_vtl(next_cs)\<close>, which reads
  \<open>next_cs->cpu_index\<close>, before the test \<open>!next_cs\<close>.
\<close>

definition hyperv_hcall_vtl_call ::
    "x86_consts \<Rightarrow> hv_vsm_proto \<Rightarrow> vsm_state \<Rightarrow> int \<Rightarrow> fault + (int \<times> vsm_state)" where
  "hyperv_hcall_vtl_call Q V w active_cs =
     (case hyperv_get_next_vtl w active_cs of
        Inl f \<Rightarrow> Inl f
      | Inr None \<Rightarrow> Inl NullDeref
      | Inr (Some next_cs) \<Rightarrow>
          if 1 < get_active_vtl active_cs then Inr (- 1, w)
          else
            (case set_vtl_entry_reason w next_cs HV_VTL_ENTRY_VTL_CALL of
               Inl f \<Rightarrow> Inl f
             | Inr w1 \<Rightarrow>
                (case switch_vtl Q V w1 active_cs next_cs of
                   Inl f \<Rightarrow> Inl f
                 | Inr w2 \<Rightarrow> Inr (EXCP_HALTED Q, w2))))"

text \<open>\<open>hyperv_hcall_vtl_return\<close>.\<close>

definition hyperv_hcall_vtl_return ::
    "x86_consts \<Rightarrow> hv_vsm_proto \<Rightarrow> vsm_state \<Rightarrow> int \<Rightarrow> fault + (int \<times> vsm_state)" where
  "hyperv_hcall_vtl_return Q V w active_cs =
     (case hyperv_get_prev_vtl w active_cs of
        Inl f \<Rightarrow> Inl f
      | Inr None \<Rightarrow> Inl NullDeref
      | Inr (Some next_cs) \<Rightarrow>
         (case switch_vtl Q V w active_cs next_cs of
            Inl f \<Rightarrow> Inl f
          | Inr w1 \<Rightarrow> Inr (EXCP_HALTED Q, w1)))"


section \<open>Virtual trust levels: enabling a VTL\<close>


text \<open>A \<open>VpVsmState\<close> as \<open>object_new\<close> returns it (all zero) and \<open>vp_vsm_realize\<close> sets it up
  for the CPU \<open>c\<close>.\<close>

definition zero_priv_state :: kvm_hv_vcpu_per_vtl_state where
  "zero_priv_state =
     \<lparr>priv_rip = 0, priv_rsp = 0, priv_rflags = 0, priv_efer = 0, priv_cr0 = 0, priv_cr3 = 0,
      priv_cr4 = 0, priv_dr7 = 0, priv_msr_cr_pat = 0, priv_msr_kernel_gsbase = 0,
      priv_msr_gsbase = 0, priv_msr_fsbase = 0, priv_msr_tsc_aux = 0, priv_msr_sysenter_cs = 0,
      priv_msr_sysenter_esp = 0, priv_msr_sysenter_eip = 0, priv_msr_star = 0,
      priv_msr_lstar = 0, priv_msr_cstar = 0, priv_msr_sfmask = 0,
      priv_msr_hv_synic_control = 0, priv_msr_hv_synic_evt_page = 0,
      priv_msr_hv_synic_msg_page = 0, priv_msr_hv_synic_sint = (\<lambda>i. 0),
      priv_msr_hv_stimer_config = (\<lambda>i. 0), priv_msr_hv_stimer_count = (\<lambda>i. 0),
      priv_msr_hv_guest_os_id = 0, priv_msr_hv_hypercall = 0, priv_msr_hv_tsc = 0,
      priv_apic_base = 0,
      priv_cs = zero_segment_register, priv_ds = zero_segment_register,
      priv_es = zero_segment_register, priv_fs = zero_segment_register,
      priv_gs = zero_segment_register, priv_ss = zero_segment_register,
      priv_tr = zero_segment_register, priv_ldtr = zero_segment_register,
      priv_idtr = zero_table_register, priv_gdtr = zero_table_register,
      priv_exception_nr = 0, priv_interrupt_injected = 0, priv_soft_interrupt = 0,
      priv_exception_pending = 0, priv_exception_injected = 0, priv_has_error_code = 0,
      priv_exception_has_payload = 0, priv_exception_payload = 0,
      priv_triple_fault_pending = 0, priv_ins_len = 0, priv_sipi_vector = 0\<rparr>"

definition vp_vsm_realize :: "int \<Rightarrow> VpVsmState" where
  "vp_vsm_realize c =
     \<lparr>vsm_vp_status = \<lparr>vp_active_vtl = word_of_int (get_active_vtl c),
                        vp_enabled_vtl_set = push_bit 0 1\<rparr>,
      vsm_vtl_config = (\<lambda>i. 0),
      priv_state = zero_priv_state,
      vp_assist = None\<rparr>"



text \<open>\<open>get_vp_vsm\<close> of a CPU of the machine.\<close>

definition get_vp_vsm :: "vsm_state \<Rightarrow> int \<Rightarrow> fault + VpVsmState option" where
  "get_vp_vsm w c = (case cpus w c of None \<Rightarrow> Inl NullDeref | Some x \<Rightarrow> Inr (vp_vsm x))"




section \<open>Reading a VP register\<close>

text \<open>
  The register names that \<open>get_vp_register\<close> tells apart, an enumeration of the protocol
  header. \<open>HV_REGISTER_VSM_VP_SECURE_CONFIG_VTL k\<close> is the name
  \<open>HV_REGISTER_VSM_VP_SECURE_CONFIG_VTL0 + k\<close>; \<open>HV_REGISTER_OTHER n\<close> is any other name.
\<close>

datatype hv_register_name =
    HV_X64_REGISTER_RSP
  | HV_X64_REGISTER_RIP
  | HV_X64_REGISTER_RFLAGS
  | HV_X64_REGISTER_CR0
  | HV_X64_REGISTER_CR3
  | HV_X64_REGISTER_CR4
  | HV_X64_REGISTER_DR7
  | HV_X64_REGISTER_LDTR
  | HV_X64_REGISTER_TR
  | HV_X64_REGISTER_IDTR
  | HV_X64_REGISTER_GDTR
  | HV_X64_REGISTER_EFER
  | HV_X64_REGISTER_SYSENTER_CS
  | HV_X64_REGISTER_SYSENTER_EIP
  | HV_X64_REGISTER_SYSENTER_ESP
  | HV_X64_REGISTER_STAR
  | HV_X64_REGISTER_LSTAR
  | HV_X64_REGISTER_CSTAR
  | HV_X64_REGISTER_SFMASK
  | HV_X64_REGISTER_TSC_AUX
  | HV_X64_REGISTER_APIC_BASE
  | HV_REGISTER_VSM_CAPABILITIES
  | HV_REGISTER_VSM_PARTITION_STATUS
  | HV_REGISTER_VSM_VP_STATUS
  | HV_REGISTER_VSM_PARTITION_CONFIG
  | HV_REGISTER_VSM_VP_SECURE_CONFIG_VTL nat
  | HV_REGISTER_VP_ASSIST_PAGE
  | HV_REGISTER_VSM_CODE_PAGE_OFFSETS
  | HV_REGISTER_OTHER "32 word"

text \<open>\<open>struct hv_vp_register_val\<close>.\<close>

record hv_vp_register_val =
  low :: "64 word"
  high :: "64 word"

text \<open>The sixteen bytes of a register value read as a packed
  \<open>struct hv_x64_segment_register\<close> on a little-endian host.\<close>

definition segment_register_of_val :: "hv_vp_register_val \<Rightarrow> hv_x64_segment_register" where
  "segment_register_of_val v =
     \<lparr>sr_base = low v,
      sr_limit = ucast (high v),
      sr_selector = ucast (drop_bit 32 (high v)),
      segment_type = ucast (drop_bit 48 (high v)),
      non_system_segment = ucast (drop_bit 52 (high v)),
      descriptor_privilege_level = ucast (drop_bit 53 (high v)),
      present = ucast (drop_bit 55 (high v)),
      reserved = ucast (drop_bit 56 (high v)),
      available = ucast (drop_bit 60 (high v)),
      seg_long = ucast (drop_bit 61 (high v)),
      seg_default = ucast (drop_bit 62 (high v)),
      granularity = ucast (drop_bit 63 (high v))\<rparr>"

text \<open>
  The two statements of the cases LDTR, TR, IDTR and GDTR:
  \<open>hyperv_get_seg(&seg, &rhs); memcpy(&rhs, val, sizeof(rhs));\<close>.
  The destination of the \<open>memcpy\<close> is the local \<open>rhs\<close> and its source is \<open>*val\<close>. The
  result is the pair of \<open>rhs\<close> and \<open>*val\<close> after them.
\<close>

definition get_seg_memcpy ::
    "x86_consts \<Rightarrow> SegmentCache \<Rightarrow> hv_vp_register_val
       \<Rightarrow> hv_x64_segment_register \<times> hv_vp_register_val" where
  "get_seg_memcpy Q seg val =
     (let rhs0 = hyperv_get_seg Q seg;
          rhs1 = segment_register_of_val val
      in (rhs1, val))"

text \<open>\<open>get_vsm_code_page_offsets\<close> and \<open>get_vsm_vp_secure_vtl_config\<close>; the latter gives
  \<open>None\<close> where the C function returns \<open>false\<close>.\<close>

definition get_vsm_code_page_offsets :: "CPUX86State \<Rightarrow> 64 word" where
  "get_vsm_code_page_offsets e =
     (if True then vsm_code_page_offsets64 e else vsm_code_page_offsets32 e)"

definition get_vsm_vp_secure_vtl_config ::
    "hv_vsm_proto \<Rightarrow> vsm_state \<Rightarrow> int \<Rightarrow> nat \<Rightarrow> fault + 64 word option" where
  "get_vsm_vp_secure_vtl_config V w c reg_vtl =
     (let target = get_active_vtl c in
      if target = 0 \<or> target \<le> int reg_vtl then Inr None
      else case get_vp_vsm w c of
        Inl f \<Rightarrow> Inl f
      | Inr None \<Rightarrow> Inl NullDeref
      | Inr (Some v) \<Rightarrow>
          if HV_NUM_VTLS V \<le> reg_vtl then Inl OutOfBounds
          else Inr (Some (vsm_vtl_config v reg_vtl)))"

text \<open>\<open>get_vp_register\<close>, for an x86-64 target. The result is the status and \<open>*val\<close>.\<close>

definition get_vp_register ::
    "x86_consts \<Rightarrow> hv_vsm_proto \<Rightarrow> vsm_state \<Rightarrow> hv_register_name \<Rightarrow> hv_vp_register_val \<Rightarrow> int
       \<Rightarrow> fault + (hv_status \<times> hv_vp_register_val)" where
  "get_vp_register Q V w name val target_vcpu =
     (case cpus w target_vcpu of
        None \<Rightarrow> Inl NullDeref
      | Some c \<Rightarrow>
          let e = env c;
              val0 = val\<lparr>low := 0, high := 0\<rparr>;
              ok = (\<lambda>v. Inr (HV_STATUS_SUCCESS, val0\<lparr>low := v\<rparr>))
          in
          case name of
            HV_X64_REGISTER_RSP \<Rightarrow> ok (regs e R_ESP)
          | HV_X64_REGISTER_RIP \<Rightarrow> ok (eip e)
          | HV_X64_REGISTER_RFLAGS \<Rightarrow> ok (eflags e)
          | HV_X64_REGISTER_CR0 \<Rightarrow> ok (cr e 0)
          | HV_X64_REGISTER_CR3 \<Rightarrow> ok (cr e 3)
          | HV_X64_REGISTER_CR4 \<Rightarrow> ok (cr e 4)
          | HV_X64_REGISTER_DR7 \<Rightarrow> ok (dr e 7)
          | HV_X64_REGISTER_LDTR \<Rightarrow> Inr (HV_STATUS_SUCCESS, snd (get_seg_memcpy Q (ldt e) val0))
          | HV_X64_REGISTER_TR \<Rightarrow> Inr (HV_STATUS_SUCCESS, snd (get_seg_memcpy Q (tr e) val0))
          | HV_X64_REGISTER_IDTR \<Rightarrow> Inr (HV_STATUS_SUCCESS, snd (get_seg_memcpy Q (idt e) val0))
          | HV_X64_REGISTER_GDTR \<Rightarrow> Inr (HV_STATUS_SUCCESS, snd (get_seg_memcpy Q (gdt e) val0))
          | HV_X64_REGISTER_EFER \<Rightarrow> ok (efer e)
          | HV_X64_REGISTER_SYSENTER_CS \<Rightarrow> ok (sysenter_cs e)
          | HV_X64_REGISTER_SYSENTER_EIP \<Rightarrow> ok (sysenter_eip e)
          | HV_X64_REGISTER_SYSENTER_ESP \<Rightarrow> ok (sysenter_esp e)
          | HV_X64_REGISTER_STAR \<Rightarrow> ok (star e)
          | HV_X64_REGISTER_LSTAR \<Rightarrow> ok (lstar e)
          | HV_X64_REGISTER_CSTAR \<Rightarrow> ok (cstar e)
          | HV_X64_REGISTER_SFMASK \<Rightarrow> ok (fmask e)
          | HV_X64_REGISTER_TSC_AUX \<Rightarrow> ok (tsc_aux e)
          | HV_X64_REGISTER_APIC_BASE \<Rightarrow> ok (apic_base c)
          | HV_REGISTER_VSM_CAPABILITIES \<Rightarrow> ok (hv_vsm_partition_capabilities w)
          | HV_REGISTER_VSM_PARTITION_STATUS \<Rightarrow>
              ok (partition_status_as_u64 (hv_vsm_partition_status w))
          | HV_REGISTER_VSM_VP_STATUS \<Rightarrow>
              (case vp_vsm c of
                 None \<Rightarrow> Inl NullDeref
               | Some v \<Rightarrow> ok (vp_status_as_u64 (vsm_vp_status v)))
          | HV_REGISTER_VSM_PARTITION_CONFIG \<Rightarrow>
              (if get_active_vtl target_vcpu < 0
                  \<or> int (HV_NUM_VTLS V) \<le> get_active_vtl target_vcpu
               then Inl OutOfBounds
               else ok (hv_vsm_partition_config w (nat (get_active_vtl target_vcpu))))
          | HV_REGISTER_VSM_VP_SECURE_CONFIG_VTL k \<Rightarrow>
              (if 14 < k then Inr (HV_STATUS_INVALID_PARAMETER, val0)
               else case get_vsm_vp_secure_vtl_config V w target_vcpu k of
                 Inl f \<Rightarrow> Inl f
               | Inr None \<Rightarrow> Inr (HV_STATUS_INVALID_PARAMETER, val0)
               | Inr (Some v) \<Rightarrow> ok v)
          | HV_REGISTER_VP_ASSIST_PAGE \<Rightarrow> ok (msr_hv_vapic e)
          | HV_REGISTER_VSM_CODE_PAGE_OFFSETS \<Rightarrow> ok (get_vsm_code_page_offsets e)
          | HV_REGISTER_OTHER n \<Rightarrow> Inr (HV_STATUS_INVALID_PARAMETER, val0))"


text \<open>
  The register state of the destination CPU after \<open>hyperv_sync_shared_vtl_state\<close>, given
  the register states \<open>e_src\<close> of the source and \<open>e_dst\<close> of the destination before it,
  and what the private state of the destination held: save from \<open>e_dst\<close>, copy \<open>e_src\<close>
  over it, restore.
\<close>

definition switched_env ::
    "x86_consts \<Rightarrow> hv_vsm_proto \<Rightarrow> CPUX86State \<Rightarrow> CPUX86State \<Rightarrow> kvm_hv_vcpu_per_vtl_state
       \<Rightarrow> CPUX86State" where
  "switched_env Q V e_src e_dst ps =
     hyperv_set_vtl_cpu_state Q
       (restore_priv_msrs V (save_priv_state Q V e_dst ps) e_src)
       (restore_priv_context (save_priv_state Q V e_dst ps))"


section \<open>Example values\<close>

text \<open>The protocol constants as the Hyper-V TLFS gives them.\<close>

definition proto0 :: hv_proto where
  "proto0 = \<lparr>HV_MESSAGE_NONE = 0, HV_MESSAGE_FLAG_PENDING = 1, HV_EVENT_FLAGS_COUNT = 2048\<rparr>"

text \<open>
  The scenario of the spec: a SynIC with its message page mapped and all slots empty, and
  a route for synthetic interrupt 2 with a completion callback; the message to post has
  a payload of sixteen bytes \<open>0xAA\<close>.
\<close>

definition empty_msg :: hyperv_message where
  "empty_msg = \<lparr>message_type = 0, message_flags = 0, payload = []\<rparr>"

definition msg_aa :: hyperv_message where
  "msg_aa = \<lparr>message_type = 1, message_flags = 0, payload = replicate 16 0xAA\<rparr>"

definition staged_free :: HvSintStagedMessage where
  "staged_free = \<lparr>msg = empty_msg, cb = 7, cb_data = 9, status = 0, state = HV_STAGED_MSG_FREE\<rparr>"

definition synic0 :: SynICState where
  "synic0 = \<lparr>cs = 0, sctl_enabled = True, msg_page_addr = 0x1000, event_page_addr = 0x2000,
             msg_page = replicate 16 empty_msg, event_page = replicate 512 0\<rparr>"

definition state_free :: hv_state where
  "state_free = \<lparr>route = \<lparr>route_sint = 2, gsi = 5, staged_msg = Some staged_free, refcount = 1\<rparr>,
                 synic = synic0, freed = False, trace = []\<rparr>"

text \<open>The same route after \<open>hyperv_post_msg\<close> of \<open>msg_aa\<close>, and after the delivery step.\<close>

definition staged_busy :: HvSintStagedMessage where
  "staged_busy = staged_free\<lparr>msg := msg_aa, state := HV_STAGED_MSG_BUSY\<rparr>"

definition state_busy :: hv_state where
  "state_busy = \<lparr>route = \<lparr>route_sint = 2, gsi = 5, staged_msg = Some staged_busy, refcount = 2\<rparr>,
                 synic = synic0, freed = False, trace = [RunOnCpu 0]\<rparr>"

definition staged_posted :: HvSintStagedMessage where
  "staged_posted = staged_busy\<lparr>state := HV_STAGED_MSG_POSTED\<rparr>"

definition state_posted :: hv_state where
  "state_posted =
     \<lparr>route = \<lparr>route_sint = 2, gsi = 5, staged_msg = Some staged_posted, refcount = 2\<rparr>,
      synic = synic0\<lparr>msg_page := (replicate 16 empty_msg)[2 := msg_aa]\<rparr>, freed = False,
      trace = [RunOnCpu 0, EventNotifierSet, SetDirtyMsgPage, ScheduleBH]\<rparr>"

text \<open>A route created while the SynIC was disabled has no GSI (\<open>gsi = 0\<close>).\<close>

definition state_busy_nogsi :: hv_state where
  "state_busy_nogsi = state_busy\<lparr>route := (route state_busy)\<lparr>gsi := 0\<rparr>\<rparr>"

definition state_free_nogsi :: hv_state where
  "state_free_nogsi = state_free\<lparr>route := (route state_free)\<lparr>gsi := 0\<rparr>\<rparr>"


text \<open>The route with its message staged, on a SynIC whose message page is not mapped, and on
  one whose slot 2 still holds a message the guest has not consumed.\<close>

definition state_busy_unmapped :: hv_state where
  "state_busy_unmapped = state_busy\<lparr>synic := synic0\<lparr>msg_page_addr := 0\<rparr>\<rparr>"

definition state_busy_occupied :: hv_state where
  "state_busy_occupied =
     state_busy\<lparr>synic := synic0\<lparr>msg_page := (replicate 16 empty_msg)[2 := msg_aa]\<rparr>\<rparr>"

text \<open>The route after the completion step.\<close>

definition state_done :: hv_state where
  "state_done =
     \<lparr>route = \<lparr>route_sint = 2, gsi = 5,
                staged_msg = Some (staged_busy\<lparr>status := 0, state := HV_STAGED_MSG_FREE\<rparr>),
                refcount = 1\<rparr>,
      synic = synic0\<lparr>msg_page := (replicate 16 empty_msg)[2 := msg_aa]\<rparr>, freed = False,
      trace = [RunOnCpu 0, EventNotifierSet, SetDirtyMsgPage, ScheduleBH, Callback 7 9 0]\<rparr>"

text \<open>The free route after event flag 5 of its synthetic interrupt has been signalled.\<close>

definition state_flag5 :: hv_state where
  "state_flag5 =
     state_free\<lparr>synic := synic0\<lparr>event_page := (replicate 512 0)[64 := 32]\<rparr>,
                trace := [SetDirtyEventPage, EventNotifierSet]\<rparr>"

text \<open>The free route after a call with \<open>eventno = HV_EVENT_FLAGS_COUNT\<close>: word 96 of the page
  is the first word of the slot of synthetic interrupt 3.\<close>

definition state_flag_overrun :: hv_state where
  "state_flag_overrun =
     state_free\<lparr>synic := synic0\<lparr>event_page := (replicate 512 0)[96 := 1]\<rparr>,
                trace := [SetDirtyEventPage, EventNotifierSet]\<rparr>"

text \<open>The constants as the TLFS and the x86 target headers give them.\<close>

definition vsm0 :: hv_vsm_proto where
  "vsm0 = \<lparr>HV_PARTITION_ID_SELF = - 1, HV_VP_INDEX_SELF = - 2, HV_SINT_COUNT = 16,
           HV_STIMER_COUNT = 4, HV_NUM_VTLS = 2\<rparr>"

definition x86 :: x86_consts where
  "x86 = \<lparr>DESC_TYPE_SHIFT = 8, DESC_DPL_SHIFT = 13, DESC_B_SHIFT = 22, DESC_L_SHIFT = 21,
          DESC_S_MASK = 0x1000, DESC_P_MASK = 0x8000, DESC_G_MASK = 0x800000,
          DESC_AVL_MASK = 0x100000, MSR_IA32_APICBASE_BSP = 0x100, KVM_MP_STATE_RUNNABLE = 0,
          EXCP_HALTED = 0x10003\<rparr>"

text \<open>A register state with every register zero, and the two contexts of one virtual
  processor: VTL0 is running, VTL1 is stopped. They differ in \<open>DR7\<close>, in the instruction
  pointer and in a general register; VTL1 has its own gs base and kernel gs base.\<close>

definition seg_zero :: SegmentCache where
  "seg_zero = \<lparr>selector = 0, base = 0, limit = 0, flags = 0\<rparr>"

definition env_zero :: CPUX86State where
  "env_zero =
     \<lparr>regs = (\<lambda>r. 0), eip = 0, eflags = 0, segs = (\<lambda>s. seg_zero), ldt = seg_zero,
      tr = seg_zero, gdt = seg_zero, idt = seg_zero, cr = (\<lambda>i. 0), dr = (\<lambda>i. 0), efer = 0,
      pat = 0, mp_state = 0, gsbase = 0, fsbase = 0, kernelgsbase = 0, tsc_aux = 0,
      sysenter_cs = 0, sysenter_esp = 0, sysenter_eip = 0, star = 0, lstar = 0, cstar = 0,
      fmask = 0, msr_hv_synic_control = 0, msr_hv_synic_evt_page = 0,
      msr_hv_synic_msg_page = 0, msr_hv_synic_sint = (\<lambda>i. 0),
      msr_hv_stimer_config = (\<lambda>i. 0), msr_hv_stimer_count = (\<lambda>i. 0),
      msr_hv_guest_os_id = 0, msr_hv_hypercall = 0, msr_hv_tsc = 0, msr_hv_vapic = 0,
      exception_nr = 0, interrupt_injected = 0, soft_interrupt = 0, exception_pending = 0,
      exception_injected = 0, has_error_code = 0, exception_has_payload = 0,
      exception_payload = 0, triple_fault_pending = 0, ins_len = 0, sipi_vector = 0,
      vsm_code_page_offsets64 = 0, vsm_code_page_offsets32 = 0, other_state = 0\<rparr>"

definition env_vtl0 :: CPUX86State where
  "env_vtl0 = env_zero\<lparr>regs := (\<lambda>r. 0)(R_EAX := 0x11), eip := 0x1000,
                        dr := (\<lambda>i. 0)(7 := 0x455),
                        ldt := seg_zero\<lparr>base := 0x7000, limit := 0xFFFF\<rparr>\<rparr>"

definition env_vtl1 :: CPUX86State where
  "env_vtl1 = env_zero\<lparr>regs := (\<lambda>r. 0)(R_EAX := 0x22), eip := 0x8000,
                        dr := (\<lambda>i. 0)(7 := 0x400),
                        segs := (\<lambda>s. seg_zero)(R_GS := seg_zero\<lparr>base := 0x2000\<rparr>),
                        gsbase := 0x1000, kernelgsbase := 0x3000\<rparr>"

definition cpu_vtl0 :: CPUState where
  "cpu_vtl0 = \<lparr>hyperv_vp_index = 0, stop = False, stopped = False, env = env_vtl0,
               vp_vsm = Some ((vp_vsm_realize 0)\<lparr>vsm_vp_status :=
                  \<lparr>vp_active_vtl = 0, vp_enabled_vtl_set = 3\<rparr>\<rparr>),
               apic_base = 0xFEE00900\<rparr>"

definition cpu_vtl1 :: CPUState where
  "cpu_vtl1 = \<lparr>hyperv_vp_index = 1, stop = False, stopped = True, env = env_vtl1,
               vp_vsm = Some (vp_vsm_realize 1), apic_base = 0xFEE00800\<rparr>"

definition world_vtl :: vsm_state where
  "world_vtl =
     \<lparr>cpus = [0 \<mapsto> cpu_vtl0, 1 \<mapsto> cpu_vtl1],
      hv_vsm_partition_status =
        \<lparr>enabled_vtl_set = 3, maximum_vtl = 1, mbec_enabled_vtl_set = 0\<rparr>,
      hv_vsm_partition_capabilities = 0,
      hv_vsm_partition_config = (\<lambda>i. 0)\<rparr>"











section \<open>Theorems: the staged message\<close>

text \<open>
  C1. On a live route with a staged message, \<open>hyperv_post_msg\<close> succeeds exactly when the
  staged message is FREE: it then returns 0, moves the state to BUSY, copies the caller's
  message into the staging area, takes one reference and schedules \<open>cpu_post_msg\<close> on the
  vCPU of the SynIC, and changes nothing else. When the state is BUSY or POSTED it returns
  \<open>-EAGAIN\<close> and the state of the world is unchanged.
\<close>

theorem hyperv_post_msg_free_or_retry:
  assumes "\<not> freed s" and "staged_msg (route s) = Some sm"
  shows "(state sm = HV_STAGED_MSG_FREE \<longrightarrow>
            hyperv_post_msg s src_msg =
              Inr (0, s\<lparr>route := (route s)\<lparr>
                          staged_msg := Some (sm\<lparr>msg := src_msg, state := HV_STAGED_MSG_BUSY\<rparr>),
                          refcount := refcount (route s) + 1\<rparr>,
                        trace := trace s @ [RunOnCpu (cs (synic s))]\<rparr>))
       \<and> (state sm = HV_STAGED_MSG_BUSY \<or> state sm = HV_STAGED_MSG_POSTED \<longrightarrow>
            hyperv_post_msg s src_msg = Inr (- EAGAIN, s))
       \<and> (\<forall>s'. hyperv_post_msg s src_msg = Inr (0, s') \<longrightarrow> state sm = HV_STAGED_MSG_FREE)"
  using assms
  by (auto simp: hyperv_post_msg_def set_staged_def hyperv_sint_route_ref_def Let_def EAGAIN_def)

theorem hyperv_post_msg_free_or_retry_witness:
  "hyperv_post_msg state_free msg_aa = Inr (0, state_busy)
   \<and> hyperv_post_msg state_busy msg_aa = Inr (- EAGAIN, state_busy)
   \<and> hyperv_post_msg state_posted msg_aa = Inr (- EAGAIN, state_posted)"
  using hyperv_post_msg_free_or_retry [of state_free staged_free msg_aa]
        hyperv_post_msg_free_or_retry [of state_busy staged_busy msg_aa]
        hyperv_post_msg_free_or_retry [of state_posted staged_posted msg_aa]
  by (simp add: state_free_def state_busy_def state_posted_def staged_free_def staged_busy_def
        staged_posted_def synic0_def)



text \<open>
  C2, as amended. The delivery step on a live route whose staged message is BUSY always
  leaves the state POSTED, and exactly one of three outcomes occurs.
  (1) No message page is mapped: the status is \<open>-ENXIO\<close> and the completion is scheduled.
  (2) The slot of the route's synthetic interrupt holds a message (type not NONE): the
  pending flag of the slot is set, the page is marked dirty, the status is \<open>-EAGAIN\<close> and
  no completion is scheduled.
  (3) The slot is free: the staged message is copied into the slot as it is, the interrupt
  of the route is raised when the route has a GSI (and only then; the status is what
  raising it returned, or 0 without a GSI), the page is marked dirty and the completion is
  scheduled.
  Nothing else changes. In (2) and (3) the synthetic interrupt number lies within the page.
\<close>

theorem cpu_post_msg_outcomes:
  assumes "\<not> freed s" and "staged_msg (route s) = Some sm"
      and "state sm = HV_STAGED_MSG_BUSY"
  shows "(msg_page_addr (synic s) = 0 \<longrightarrow>
            cpu_post_msg P ev_ret s =
              Inr (s\<lparr>route := (route s)\<lparr>staged_msg :=
                          Some (sm\<lparr>status := - ENXIO, state := HV_STAGED_MSG_POSTED\<rparr>)\<rparr>,
                      trace := trace s @ [ScheduleBH]\<rparr>))
       \<and> (msg_page_addr (synic s) \<noteq> 0 \<and>
            unat (route_sint (route s)) < length (msg_page (synic s)) \<and>
            message_type (msg_page (synic s) ! unat (route_sint (route s))) \<noteq> HV_MESSAGE_NONE P \<longrightarrow>
            cpu_post_msg P ev_ret s =
              Inr (s\<lparr>route := (route s)\<lparr>staged_msg :=
                          Some (sm\<lparr>status := - EAGAIN, state := HV_STAGED_MSG_POSTED\<rparr>)\<rparr>,
                      synic := (synic s)\<lparr>msg_page := (msg_page (synic s))
                          [unat (route_sint (route s)) :=
                             (msg_page (synic s) ! unat (route_sint (route s)))\<lparr>message_flags :=
                                message_flags (msg_page (synic s) ! unat (route_sint (route s)))
                                  OR HV_MESSAGE_FLAG_PENDING P\<rparr>]\<rparr>,
                      trace := trace s @ [SetDirtyMsgPage]\<rparr>))
       \<and> (msg_page_addr (synic s) \<noteq> 0 \<and>
            unat (route_sint (route s)) < length (msg_page (synic s)) \<and>
            message_type (msg_page (synic s) ! unat (route_sint (route s))) = HV_MESSAGE_NONE P \<longrightarrow>
            cpu_post_msg P ev_ret s =
              Inr (s\<lparr>route := (route s)\<lparr>staged_msg :=
                          Some (sm\<lparr>status := (if gsi (route s) = 0 then 0 else ev_ret),
                                   state := HV_STAGED_MSG_POSTED\<rparr>)\<rparr>,
                      synic := (synic s)\<lparr>msg_page := (msg_page (synic s))
                          [unat (route_sint (route s)) := msg sm]\<rparr>,
                      trace := trace s @ (if gsi (route s) = 0 then [] else [EventNotifierSet])
                                 @ [SetDirtyMsgPage, ScheduleBH]\<rparr>))"
  using assms
  by (auto simp: cpu_post_msg_def cpu_post_msg_posted_def set_staged_def set_msg_slot_def
        hyperv_sint_route_set_sint_def Let_def)

theorem cpu_post_msg_outcomes_witness:
  "cpu_post_msg proto0 0 state_busy = Inr state_posted
   \<and> msg_page (synic state_posted) ! 2 = msg_aa
   \<and> cpu_post_msg proto0 0 state_busy_unmapped =
       Inr (state_busy_unmapped\<lparr>
              route := (route state_busy_unmapped)\<lparr>staged_msg :=
                 Some (staged_busy\<lparr>status := - ENXIO, state := HV_STAGED_MSG_POSTED\<rparr>)\<rparr>,
              trace := [RunOnCpu 0, ScheduleBH]\<rparr>)
   \<and> cpu_post_msg proto0 0 state_busy_occupied =
       Inr (state_busy_occupied\<lparr>
              route := (route state_busy_occupied)\<lparr>staged_msg :=
                 Some (staged_busy\<lparr>status := - EAGAIN, state := HV_STAGED_MSG_POSTED\<rparr>)\<rparr>,
              synic := synic0\<lparr>msg_page :=
                 (replicate 16 empty_msg)[2 := msg_aa\<lparr>message_flags := 1\<rparr>]\<rparr>,
              trace := [RunOnCpu 0, SetDirtyMsgPage]\<rparr>)"
  using cpu_post_msg_outcomes [of state_busy staged_busy proto0 0]
        cpu_post_msg_outcomes [of state_busy_unmapped staged_busy proto0 0]
        cpu_post_msg_outcomes [of state_busy_occupied staged_busy proto0 0]
  by (simp add: state_busy_def state_posted_def state_busy_unmapped_def state_busy_occupied_def
        staged_busy_def staged_posted_def staged_free_def synic0_def proto0_def empty_msg_def
        msg_aa_def)

text \<open>
  C2 as stated fails on a route without a GSI: the slot is free and the page mapped, the
  message is delivered and the completion scheduled, but \<open>event_notifier_set\<close> is not
  called, so no interrupt is raised.
\<close>

theorem cpu_post_msg_interrupt_counterexample:
  "staged_msg (route state_busy_nogsi) = Some staged_busy
   \<and> state staged_busy = HV_STAGED_MSG_BUSY
   \<and> msg_page_addr (synic state_busy_nogsi) \<noteq> 0
   \<and> message_type (msg_page (synic state_busy_nogsi) ! 2) = HV_MESSAGE_NONE proto0
   \<and> cpu_post_msg proto0 0 state_busy_nogsi =
       Inr (state_busy_nogsi\<lparr>
              route := (route state_busy_nogsi)\<lparr>staged_msg := Some staged_posted\<rparr>,
              synic := synic0\<lparr>msg_page := (replicate 16 empty_msg)[2 := msg_aa]\<rparr>,
              trace := [RunOnCpu 0, SetDirtyMsgPage, ScheduleBH]\<rparr>)
   \<and> EventNotifierSet \<notin> set [RunOnCpu 0, SetDirtyMsgPage, ScheduleBH]"
  by (simp add: cpu_post_msg_def cpu_post_msg_posted_def set_staged_def set_msg_slot_def
        hyperv_sint_route_set_sint_def Let_def state_busy_nogsi_def state_busy_def
        staged_busy_def staged_posted_def staged_free_def synic0_def proto0_def empty_msg_def
        msg_aa_def)

lemma sint_msg_bh_not_posted:
  "\<not> freed s \<Longrightarrow> staged_msg (route s) = Some sm \<Longrightarrow> state sm \<noteq> HV_STAGED_MSG_POSTED \<Longrightarrow>
   sint_msg_bh s = Inr s"
  by (simp add: sint_msg_bh_def)

lemma sint_msg_bh_posted:
  assumes "\<not> freed s" and "staged_msg (route s) = Some sm"
      and "state sm = HV_STAGED_MSG_POSTED" and "refcount (route s) \<noteq> 0"
  shows "\<exists>s'. sint_msg_bh s = Inr s'
            \<and> staged_msg (route s') = Some (sm\<lparr>status := 0, state := HV_STAGED_MSG_FREE\<rparr>)
            \<and> refcount (route s') = refcount (route s) - 1
            \<and> callbacks (trace s') = callbacks (trace s) @ [Callback (cb sm) (cb_data sm) (status sm)]
            \<and> synic s' = synic s
            \<and> (freed s' \<longleftrightarrow> refcount (route s) = 1)"
  using assms
  by (simp add: sint_msg_bh_def hyperv_sint_route_unref_def set_staged_def Let_def callbacks_def)

lemma cpu_post_msg_posts:
  assumes "\<not> freed s" and "staged_msg (route s) = Some sm"
      and "state sm = HV_STAGED_MSG_BUSY"
      and "msg_page_addr (synic s) = 0 \<or> unat (route_sint (route s)) < length (msg_page (synic s))"
  shows "\<exists>s' st. cpu_post_msg P ev_ret s = Inr s'
            \<and> staged_msg (route s') = Some (sm\<lparr>status := st, state := HV_STAGED_MSG_POSTED\<rparr>)
            \<and> refcount (route s') = refcount (route s)
            \<and> callbacks (trace s') = callbacks (trace s)
            \<and> \<not> freed s'"
  using assms
  by (auto simp: cpu_post_msg_def cpu_post_msg_posted_def set_staged_def set_msg_slot_def
        hyperv_sint_route_set_sint_def Let_def callbacks_def)

lemma hyperv_post_msg_free:
  assumes "\<not> freed s" and "staged_msg (route s) = Some sm"
      and "state sm = HV_STAGED_MSG_FREE"
  shows "\<exists>s'. hyperv_post_msg s src_msg = Inr (0, s')
            \<and> staged_msg (route s') = Some (sm\<lparr>msg := src_msg, state := HV_STAGED_MSG_BUSY\<rparr>)
            \<and> refcount (route s') = refcount (route s) + 1
            \<and> callbacks (trace s') = callbacks (trace s)
            \<and> synic s' = synic s \<and> \<not> freed s'"
  using assms
  by (simp add: hyperv_post_msg_def set_staged_def hyperv_sint_route_ref_def Let_def callbacks_def)


text \<open>
  C3. On a live route with a staged message, \<open>sint_msg_bh\<close> does nothing when the state is
  not POSTED. When it is POSTED (and the reference taken at post time is still held), it
  calls the callback once with the recorded status, resets the status to 0, moves the state
  to FREE and drops one reference. So over a cycle that starts FREE (post, a spurious
  completion, delivery, completion, another spurious completion) the callback is called
  exactly once.
\<close>

theorem sint_msg_bh_completes_once:
  assumes live: "\<not> freed s" and sm: "staged_msg (route s) = Some sm"
  shows "(state sm \<noteq> HV_STAGED_MSG_POSTED \<longrightarrow> sint_msg_bh s = Inr s)
       \<and> (state sm = HV_STAGED_MSG_POSTED \<and> refcount (route s) \<noteq> 0 \<longrightarrow>
            (\<exists>s'. sint_msg_bh s = Inr s'
               \<and> staged_msg (route s') = Some (sm\<lparr>status := 0, state := HV_STAGED_MSG_FREE\<rparr>)
               \<and> refcount (route s') = refcount (route s) - 1
               \<and> callbacks (trace s') =
                   callbacks (trace s) @ [Callback (cb sm) (cb_data sm) (status sm)]
               \<and> synic s' = synic s))
       \<and> (state sm = HV_STAGED_MSG_FREE \<and> refcount (route s) \<noteq> 0 \<and> refcount (route s) + 1 \<noteq> 0
            \<and> (msg_page_addr (synic s) = 0
                 \<or> unat (route_sint (route s)) < length (msg_page (synic s))) \<longrightarrow>
            (\<exists>s1 s2 s3 st. hyperv_post_msg s src_msg = Inr (0, s1)
               \<and> sint_msg_bh s1 = Inr s1
               \<and> cpu_post_msg P ev_ret s1 = Inr s2
               \<and> sint_msg_bh s2 = Inr s3
               \<and> sint_msg_bh s3 = Inr s3
               \<and> callbacks (trace s3) = callbacks (trace s) @ [Callback (cb sm) (cb_data sm) st]
               \<and> staged_msg (route s3) =
                   Some (sm\<lparr>msg := src_msg, status := 0, state := HV_STAGED_MSG_FREE\<rparr>)
               \<and> refcount (route s3) = refcount (route s)))"
proof (intro conjI impI)
  assume "state sm \<noteq> HV_STAGED_MSG_POSTED"
  with live sm show "sint_msg_bh s = Inr s" by (rule sint_msg_bh_not_posted)
next
  assume "state sm = HV_STAGED_MSG_POSTED \<and> refcount (route s) \<noteq> 0"
  with sint_msg_bh_posted [OF live sm]
  show "\<exists>s'. sint_msg_bh s = Inr s'
               \<and> staged_msg (route s') = Some (sm\<lparr>status := 0, state := HV_STAGED_MSG_FREE\<rparr>)
               \<and> refcount (route s') = refcount (route s) - 1
               \<and> callbacks (trace s') =
                   callbacks (trace s) @ [Callback (cb sm) (cb_data sm) (status sm)]
               \<and> synic s' = synic s"
    by blast
next
  assume a: "state sm = HV_STAGED_MSG_FREE \<and> refcount (route s) \<noteq> 0 \<and> refcount (route s) + 1 \<noteq> 0
            \<and> (msg_page_addr (synic s) = 0
                 \<or> unat (route_sint (route s)) < length (msg_page (synic s)))"
  let ?busy = "sm\<lparr>msg := src_msg, state := HV_STAGED_MSG_BUSY\<rparr>"
  from a hyperv_post_msg_free [OF live sm, of src_msg]
  obtain s1 where s1: "hyperv_post_msg s src_msg = Inr (0, s1)"
      "staged_msg (route s1) = Some ?busy" "refcount (route s1) = refcount (route s) + 1"
      "callbacks (trace s1) = callbacks (trace s)" "synic s1 = synic s" "\<not> freed s1"
    by blast
  have bh1: "sint_msg_bh s1 = Inr s1"
    using s1(6) s1(2) by (rule sint_msg_bh_not_posted) simp
  from a s1 have "msg_page_addr (synic s1) = 0
      \<or> unat (route_sint (route s1)) < length (msg_page (synic s1))"
    using live sm by (auto simp: hyperv_post_msg_def set_staged_def hyperv_sint_route_ref_def Let_def)
  from cpu_post_msg_posts [OF s1(6) s1(2) _ this, of P ev_ret]
  obtain s2 st where s2: "cpu_post_msg P ev_ret s1 = Inr s2"
      "staged_msg (route s2) = Some (?busy\<lparr>status := st, state := HV_STAGED_MSG_POSTED\<rparr>)"
      "refcount (route s2) = refcount (route s1)" "callbacks (trace s2) = callbacks (trace s1)"
      "\<not> freed s2"
    by auto
  let ?posted = "?busy\<lparr>status := st, state := HV_STAGED_MSG_POSTED\<rparr>"
  from a s1(3) s2(3) have rc2: "refcount (route s2) \<noteq> 0" by simp
  from sint_msg_bh_posted [OF s2(5) s2(2) _ rc2]
  obtain s3 where s3: "sint_msg_bh s2 = Inr s3"
      "staged_msg (route s3) = Some (?posted\<lparr>status := 0, state := HV_STAGED_MSG_FREE\<rparr>)"
      "refcount (route s3) = refcount (route s2) - 1"
      "callbacks (trace s3) = callbacks (trace s2) @ [Callback (cb ?posted) (cb_data ?posted) (status ?posted)]"
      "freed s3 \<longleftrightarrow> refcount (route s2) = 1"
    by auto
  from a s1(3) s2(3) s3(5) have live3: "\<not> freed s3" by simp
  have bh3: "sint_msg_bh s3 = Inr s3"
    using live3 s3(2) by (rule sint_msg_bh_not_posted) simp
  have "callbacks (trace s3) = callbacks (trace s) @ [Callback (cb sm) (cb_data sm) st]"
    using s3(4) s2(4) s1(4) by simp
  moreover have "staged_msg (route s3) =
      Some (sm\<lparr>msg := src_msg, status := 0, state := HV_STAGED_MSG_FREE\<rparr>)"
    using s3(2) by simp
  moreover have "refcount (route s3) = refcount (route s)"
    using s3(3) s2(3) s1(3) by simp
  ultimately show "\<exists>s1 s2 s3 st. hyperv_post_msg s src_msg = Inr (0, s1)
               \<and> sint_msg_bh s1 = Inr s1
               \<and> cpu_post_msg P ev_ret s1 = Inr s2
               \<and> sint_msg_bh s2 = Inr s3
               \<and> sint_msg_bh s3 = Inr s3
               \<and> callbacks (trace s3) = callbacks (trace s) @ [Callback (cb sm) (cb_data sm) st]
               \<and> staged_msg (route s3) =
                   Some (sm\<lparr>msg := src_msg, status := 0, state := HV_STAGED_MSG_FREE\<rparr>)
               \<and> refcount (route s3) = refcount (route s)"
    using s1(1) bh1 s2(1) s3(1) bh3 by blast
qed


theorem sint_msg_bh_completes_once_witness:
  "sint_msg_bh state_busy = Inr state_busy
   \<and> sint_msg_bh state_posted = Inr state_done
   \<and> callbacks (trace state_done) = callbacks (trace state_posted) @ [Callback 7 9 0]
   \<and> sint_msg_bh state_done = Inr state_done"
  using sint_msg_bh_completes_once [of state_busy staged_busy msg_aa proto0 0]
        sint_msg_bh_completes_once [of state_posted staged_posted msg_aa proto0 0]
        sint_msg_bh_completes_once [of state_done
            "staged_busy\<lparr>status := 0, state := HV_STAGED_MSG_FREE\<rparr>" msg_aa proto0 0]
  by (simp add: sint_msg_bh_def hyperv_sint_route_unref_def set_staged_def Let_def
        callbacks_def state_busy_def state_posted_def state_done_def staged_busy_def
        staged_posted_def staged_free_def)

section \<open>Theorems: event flags\<close>

lemma bit_BIT_MASK: "bit (BIT_MASK n) j \<longleftrightarrow> j = n mod 64"
  by (auto simp: BIT_MASK_def BITS_PER_LONG_def bit_exp_iff)

lemma and_BIT_MASK: "(w AND BIT_MASK n = BIT_MASK n) \<longleftrightarrow> bit w (n mod 64)"
proof
  assume "w AND BIT_MASK n = BIT_MASK n"
  then have "bit (w AND BIT_MASK n) (n mod 64) = bit (BIT_MASK n) (n mod 64)" by simp
  then show "bit w (n mod 64)" by (simp add: bit_and_iff bit_BIT_MASK)
next
  assume "bit w (n mod 64)"
  then show "w AND BIT_MASK n = BIT_MASK n"
    by (intro bit_eqI) (auto simp: bit_and_iff bit_BIT_MASK)
qed

lemma or_BIT_MASK_same: "bit w (n mod 64) \<Longrightarrow> w OR BIT_MASK n = w"
  by (intro bit_eqI) (auto simp: bit_or_iff bit_BIT_MASK)

lemma bit_or_BIT_MASK: "bit (w OR BIT_MASK n) j \<longleftrightarrow> bit w j \<or> j = n mod 64"
  by (simp add: bit_or_iff bit_BIT_MASK)

lemma BIT_WORD_less: "n < c \<Longrightarrow> BIT_WORD n < BITS_TO_LONGS c"
  by (simp add: BIT_WORD_def BITS_TO_LONGS_def BITS_PER_LONG_def)

lemma flag_index_inj:
  assumes "n div 64 < W" and "n' div 64 < W"
      and "si * W + n div 64 = si' * W + n' div 64" and "n mod 64 = n' mod (64::nat)"
  shows "si = si' \<and> n = n'"
proof -
  have "(si * W + n div 64) div W = si" using assms(1) by simp
  moreover have "(si' * W + n' div 64) div W = si'" using assms(2) by simp
  ultimately have si: "si = si'" using assms(3) by simp
  with assms(3) have "n div 64 = n' div 64" by simp
  with assms(4) have "n = n'" by (metis div_mult_mod_eq)
  with si show ?thesis by simp
qed

lemma event_flag_update:
  assumes "n < HV_EVENT_FLAGS_COUNT P" and "n' < HV_EVENT_FLAGS_COUNT P"
  shows "event_flag P (page[si * BITS_TO_LONGS (HV_EVENT_FLAGS_COUNT P) + BIT_WORD n :=
                         page ! (si * BITS_TO_LONGS (HV_EVENT_FLAGS_COUNT P) + BIT_WORD n)
                           OR BIT_MASK n]) si' n'
          \<longleftrightarrow> (if si * BITS_TO_LONGS (HV_EVENT_FLAGS_COUNT P) + BIT_WORD n < length page
                  \<and> si' = si \<and> n' = n then True else event_flag P page si' n')"
    (is "event_flag P (page[?i := ?v]) si' n' \<longleftrightarrow> ?rhs")
proof (cases "?i < length page")
  case False
  then have "page[?i := ?v] = page" by (intro list_update_beyond) simp
  with False show ?thesis by simp
next
  case len: True
  let ?W = "BITS_TO_LONGS (HV_EVENT_FLAGS_COUNT P)"
  have w: "n div 64 < ?W" "n' div 64 < ?W"
    using assms BIT_WORD_less [of _ "HV_EVENT_FLAGS_COUNT P"]
    by (simp_all add: BIT_WORD_def BITS_PER_LONG_def)
  have i: "?i = si * ?W + n div 64" by (simp add: BIT_WORD_def BITS_PER_LONG_def)
  show ?thesis
  proof (cases "si * ?W + n div 64 = si' * ?W + n' div 64")
    case False
    then have "(page[?i := ?v]) ! (si' * ?W + n' div 64) = page ! (si' * ?W + n' div 64)"
      unfolding i by (intro nth_list_update_neq)
    moreover from False have "\<not> (si' = si \<and> n' = n)" by auto
    ultimately show ?thesis
      by (auto simp: event_flag_def BITS_PER_LONG_def)
  next
    case same: True
    then have nth: "(page[?i := ?v]) ! (si' * ?W + n' div 64) = ?v"
      using len unfolding i by simp
    show ?thesis
    proof (cases "n mod 64 = n' mod 64")
      case True
      with flag_index_inj [OF w same] have eq: "si = si'" "n = n'" by simp_all
      have "bit ?v (n' mod 64)" unfolding eq [symmetric] by (simp add: bit_or_BIT_MASK)
      with nth len eq show ?thesis
        by (simp add: event_flag_def BITS_PER_LONG_def)
    next
      case False
      then have ne: "\<not> (si' = si \<and> n' = n)" by auto
      have "event_flag P (page[?i := ?v]) si' n' = bit ?v (n' mod 64)"
        by (simp add: event_flag_def BITS_PER_LONG_def nth)
      also have "\<dots> = bit (page ! ?i) (n' mod 64)"
        using False by (auto simp: bit_or_BIT_MASK)
      also have "\<dots> = event_flag P page si' n'"
        unfolding i same by (simp add: event_flag_def BITS_PER_LONG_def)
      finally show ?thesis using ne by auto
    qed
  qed
qed


text \<open>
  C6, as amended. For an event number below \<open>HV_EVENT_FLAGS_COUNT\<close> on an enabled SynIC with
  a mapped event page (the slot of the route lying within the page): if the flag is
  already set, the call returns 0 and changes nothing (no dirty mark, no interrupt); if it
  is clear, the call sets this flag and no other, marks the event page dirty once, and
  raises the interrupt of the route once when the route has a GSI (and not at all when
  it has none), returning what raising it returned (0 without a GSI).
\<close>

theorem hyperv_set_event_flag_edge:
  assumes live: "\<not> freed s"
      and inrange: "unat eventno < HV_EVENT_FLAGS_COUNT P"
      and enabled: "sctl_enabled (synic s)" "event_page_addr (synic s) \<noteq> 0"
      and slot: "(unat (route_sint (route s)) + 1) * BITS_TO_LONGS (HV_EVENT_FLAGS_COUNT P)
                   \<le> length (event_page (synic s))"
  shows "(event_flag P (event_page (synic s)) (unat (route_sint (route s))) (unat eventno) \<longrightarrow>
            hyperv_set_event_flag P ev_ret s eventno = Inr (0, s))
       \<and> (\<not> event_flag P (event_page (synic s)) (unat (route_sint (route s))) (unat eventno) \<longrightarrow>
            (\<exists>s'. hyperv_set_event_flag P ev_ret s eventno =
                     Inr (if gsi (route s) = 0 then 0 else ev_ret, s')
               \<and> trace s' = trace s @ [SetDirtyEventPage]
                              @ (if gsi (route s) = 0 then [] else [EventNotifierSet])
               \<and> route s' = route s \<and> \<not> freed s'
               \<and> synic s' = (synic s)\<lparr>event_page := event_page (synic s')\<rparr>
               \<and> length (event_page (synic s')) = length (event_page (synic s))
               \<and> (\<forall>si n. n < HV_EVENT_FLAGS_COUNT P \<longrightarrow>
                     event_flag P (event_page (synic s')) si n =
                       (event_flag P (event_page (synic s)) si n
                        \<or> si = unat (route_sint (route s)) \<and> n = unat eventno))))"
proof -
  let ?W = "BITS_TO_LONGS (HV_EVENT_FLAGS_COUNT P)"
  let ?si = "unat (route_sint (route s))"
  let ?n = "unat eventno"
  let ?i = "?si * ?W + BIT_WORD ?n"
  let ?page = "event_page (synic s)"
  have "BIT_WORD ?n < ?W" using inrange by (rule BIT_WORD_less)
  then have "?i < (?si + 1) * ?W" by simp
  with slot have i: "?i < length ?page" by simp
  have flag: "event_flag P ?page ?si ?n \<longleftrightarrow> (?page ! ?i AND BIT_MASK ?n = BIT_MASK ?n)"
    by (simp add: event_flag_def and_BIT_MASK BIT_WORD_def BITS_PER_LONG_def)
  show ?thesis
  proof (intro conjI impI)
    assume set: "event_flag P ?page ?si ?n"
    then have "?page ! ?i OR BIT_MASK ?n = ?page ! ?i"
      by (simp add: event_flag_def or_BIT_MASK_same BIT_WORD_def BITS_PER_LONG_def)
    with set flag show "hyperv_set_event_flag P ev_ret s eventno = Inr (0, s)"
      using live inrange enabled i by (simp add: hyperv_set_event_flag_def Let_def)
  next
    assume clear: "\<not> event_flag P ?page ?si ?n"
    define page' where "page' = ?page[?i := ?page ! ?i OR BIT_MASK ?n]"
    define s' where "s' = s\<lparr>synic := (synic s)\<lparr>event_page := page'\<rparr>,
                  trace := trace s @ [SetDirtyEventPage]
                              @ (if gsi (route s) = 0 then [] else [EventNotifierSet])\<rparr>"
    have res: "hyperv_set_event_flag P ev_ret s eventno =
                 Inr (if gsi (route s) = 0 then 0 else ev_ret, s')"
      using clear flag live inrange enabled i
      by (simp add: hyperv_set_event_flag_def hyperv_sint_route_set_sint_def Let_def
            s'_def page'_def)
    have page: "event_page (synic s') = page'" by (simp add: s'_def)
    have flags: "\<forall>si n. n < HV_EVENT_FLAGS_COUNT P \<longrightarrow>
                     event_flag P (event_page (synic s')) si n =
                       (event_flag P ?page si n \<or> si = ?si \<and> n = ?n)"
    proof (intro allI impI)
      fix si n assume "n < HV_EVENT_FLAGS_COUNT P"
      from event_flag_update [OF inrange this, of ?page ?si si] i
      show "event_flag P (event_page (synic s')) si n =
              (event_flag P ?page si n \<or> si = ?si \<and> n = ?n)"
        unfolding page page'_def by (cases "si = ?si \<and> n = ?n") auto
    qed
    have tr: "trace s' = trace s @ [SetDirtyEventPage]
                              @ (if gsi (route s) = 0 then [] else [EventNotifierSet])"
      by (simp add: s'_def)
    have frame: "route s' = route s" "\<not> freed s'"
        "synic s' = (synic s)\<lparr>event_page := event_page (synic s')\<rparr>"
        "length (event_page (synic s')) = length (event_page (synic s))"
      using live by (simp_all add: s'_def page'_def)
    from res tr frame flags
    show "\<exists>s'. hyperv_set_event_flag P ev_ret s eventno =
                     Inr (if gsi (route s) = 0 then 0 else ev_ret, s')
               \<and> trace s' = trace s @ [SetDirtyEventPage]
                              @ (if gsi (route s) = 0 then [] else [EventNotifierSet])
               \<and> route s' = route s \<and> \<not> freed s'
               \<and> synic s' = (synic s)\<lparr>event_page := event_page (synic s')\<rparr>
               \<and> length (event_page (synic s')) = length (event_page (synic s))
               \<and> (\<forall>si n. n < HV_EVENT_FLAGS_COUNT P \<longrightarrow>
                     event_flag P (event_page (synic s')) si n =
                       (event_flag P (event_page (synic s)) si n
                        \<or> si = unat (route_sint (route s)) \<and> n = unat eventno))"
      by blast
  qed
qed


theorem hyperv_set_event_flag_edge_witness:
  "(\<exists>s'. hyperv_set_event_flag proto0 0 state_free 5 = Inr (0, s')
          \<and> trace s' = [SetDirtyEventPage, EventNotifierSet]
          \<and> event_flag proto0 (event_page (synic s')) 2 5
          \<and> \<not> event_flag proto0 (event_page (synic s')) 2 6)
   \<and> hyperv_set_event_flag proto0 0 state_flag5 5 = Inr (0, state_flag5)"
proof -
  have h: "\<not> freed state_free" "unat (5 :: 32 word) < HV_EVENT_FLAGS_COUNT proto0"
      "sctl_enabled (synic state_free)" "event_page_addr (synic state_free) \<noteq> 0"
      "(unat (route_sint (route state_free)) + 1) * BITS_TO_LONGS (HV_EVENT_FLAGS_COUNT proto0)
         \<le> length (event_page (synic state_free))"
    by (simp_all add: state_free_def synic0_def proto0_def BITS_TO_LONGS_def BITS_PER_LONG_def)
  have h5: "\<not> freed state_flag5" "sctl_enabled (synic state_flag5)"
      "event_page_addr (synic state_flag5) \<noteq> 0"
      "(unat (route_sint (route state_flag5)) + 1) * BITS_TO_LONGS (HV_EVENT_FLAGS_COUNT proto0)
         \<le> length (event_page (synic state_flag5))"
    by (simp_all add: state_flag5_def state_free_def synic0_def proto0_def BITS_TO_LONGS_def
          BITS_PER_LONG_def)
  have v: "unat (route_sint (route state_free)) = 2" "unat (5 :: 32 word) = 5"
      "gsi (route state_free) = 5" "trace state_free = []"
      "unat (route_sint (route state_flag5)) = 2"
    by (simp_all add: state_free_def state_flag5_def)
  have clear: "\<not> event_flag proto0 (event_page (synic state_free)) 2 5"
      "\<not> event_flag proto0 (event_page (synic state_free)) 2 6"
    by (simp_all add: event_flag_def state_free_def synic0_def proto0_def BITS_TO_LONGS_def
          BITS_PER_LONG_def)
  have set: "event_flag proto0 (event_page (synic state_flag5)) 2 5"
    by (simp add: event_flag_def state_flag5_def state_free_def synic0_def proto0_def
          BITS_TO_LONGS_def BITS_PER_LONG_def)
  have n6: "(6 :: nat) < HV_EVENT_FLAGS_COUNT proto0" by (simp add: proto0_def)
  have n5: "(5 :: nat) < HV_EVENT_FLAGS_COUNT proto0" by (simp add: proto0_def)
  from hyperv_set_event_flag_edge [OF h, of 0, THEN conjunct2] clear(1)
  obtain s' where s: "hyperv_set_event_flag proto0 0 state_free 5 =
        Inr (if gsi (route state_free) = 0 then 0 else 0, s')"
      "trace s' = trace state_free @ [SetDirtyEventPage]
                    @ (if gsi (route state_free) = 0 then [] else [EventNotifierSet])"
      "\<forall>si n. n < HV_EVENT_FLAGS_COUNT proto0 \<longrightarrow>
          event_flag proto0 (event_page (synic s')) si n =
            (event_flag proto0 (event_page (synic state_free)) si n
             \<or> si = unat (route_sint (route state_free)) \<and> n = unat (5 :: 32 word))"
    unfolding v by blast
  from s(3) n5 have f5: "event_flag proto0 (event_page (synic s')) 2 5"
    unfolding v by blast
  from s(3) n6 clear(2) have f6: "\<not> event_flag proto0 (event_page (synic s')) 2 6"
    unfolding v by simp
  have first: "\<exists>s'. hyperv_set_event_flag proto0 0 state_free 5 = Inr (0, s')
          \<and> trace s' = [SetDirtyEventPage, EventNotifierSet]
          \<and> event_flag proto0 (event_page (synic s')) 2 5
          \<and> \<not> event_flag proto0 (event_page (synic s')) 2 6"
    using s(1,2) f5 f6 unfolding v by auto
  have second: "hyperv_set_event_flag proto0 0 state_flag5 5 = Inr (0, state_flag5)"
    using hyperv_set_event_flag_edge [OF h5(1) h(2) h5(2,3,4), of 0, THEN conjunct1] set
    unfolding v by blast
  from first second show ?thesis by (rule conjI)
qed

text \<open>
  C6 as stated fails on a route without a GSI: the flag was clear, it is set and the page
  marked dirty, but no interrupt is raised.
\<close>

theorem hyperv_set_event_flag_interrupt_counterexample:
  "\<not> event_flag proto0 (event_page (synic state_free_nogsi)) 2 5
   \<and> hyperv_set_event_flag proto0 0 state_free_nogsi 5 =
       Inr (0, state_free_nogsi\<lparr>
                 synic := synic0\<lparr>event_page := (replicate 512 0)[64 := 32]\<rparr>,
                 trace := [SetDirtyEventPage]\<rparr>)
   \<and> EventNotifierSet \<notin> set [SetDirtyEventPage]"
  by (simp add: hyperv_set_event_flag_def hyperv_sint_route_set_sint_def Let_def event_flag_def
        state_free_nogsi_def state_free_def synic0_def proto0_def BITS_TO_LONGS_def
        BITS_PER_LONG_def BIT_WORD_def BIT_MASK_def)

text \<open>
  The error paths of \<open>hyperv_set_event_flag\<close> as the code has them: an event number above
  \<open>HV_EVENT_FLAGS_COUNT\<close> gives \<open>-EINVAL\<close>; otherwise a disabled SynIC or an unmapped event
  page gives \<open>-ENXIO\<close>; neither changes anything.
\<close>

lemma hyperv_set_event_flag_errors:
  assumes "\<not> freed s"
  shows "(HV_EVENT_FLAGS_COUNT P < unat eventno \<longrightarrow>
            hyperv_set_event_flag P ev_ret s eventno = Inr (- EINVAL, s))
       \<and> (unat eventno \<le> HV_EVENT_FLAGS_COUNT P
            \<and> (\<not> sctl_enabled (synic s) \<or> event_page_addr (synic s) = 0) \<longrightarrow>
            hyperv_set_event_flag P ev_ret s eventno = Inr (- ENXIO, s))"
  using assms by (auto simp: hyperv_set_event_flag_def)

text \<open>
  C7 fails on the code at \<open>eventno = HV_EVENT_FLAGS_COUNT\<close>, the first number outside the
  flag vector: the range check is \<open>eventno > HV_EVENT_FLAGS_COUNT\<close>, so the call is not
  refused. On the enabled SynIC of the example it returns 0 and sets a bit one word past
  the flags of the route's synthetic interrupt 2, which is flag 0 of synthetic interrupt 3.
\<close>

theorem hyperv_set_event_flag_off_by_one:
  "hyperv_set_event_flag proto0 0 state_free (of_nat (HV_EVENT_FLAGS_COUNT proto0)) =
     Inr (0, state_flag_overrun)"
  by (simp add: hyperv_set_event_flag_def hyperv_sint_route_set_sint_def Let_def
        state_flag_overrun_def state_free_def synic0_def proto0_def BITS_TO_LONGS_def
        BITS_PER_LONG_def BIT_WORD_def BIT_MASK_def)

theorem hyperv_set_event_flag_off_by_one_witness:
  "hyperv_set_event_flag proto0 0 state_free 2048 \<noteq> Inr (- EINVAL, state_free)
   \<and> \<not> event_flag proto0 (event_page (synic state_free)) 3 0
   \<and> event_flag proto0 (event_page (synic state_flag_overrun)) 3 0"
  using hyperv_set_event_flag_off_by_one
  by (simp add: state_flag_overrun_def state_free_def synic0_def proto0_def EINVAL_def
        event_flag_def BITS_TO_LONGS_def BITS_PER_LONG_def)



section \<open>Theorems: reading a VP register\<close>

text \<open>
  C10. For every CPU of the machine, whatever its registers hold, \<open>get_vp_register\<close> with
  the name LDTR, TR, IDTR or GDTR returns success and a value whose two halves are zero:
  the \<open>memcpy\<close> of these cases copies from \<open>*val\<close>, which was set to zero, into the local
  segment register, and not the other way round.
\<close>

theorem get_vp_register_descriptor_tables_zero:
  assumes "cpus w target_vcpu = Some c"
      and "name = HV_X64_REGISTER_LDTR \<or> name = HV_X64_REGISTER_TR
           \<or> name = HV_X64_REGISTER_IDTR \<or> name = HV_X64_REGISTER_GDTR"
  shows "get_vp_register Q V w name val target_vcpu =
           Inr (HV_STATUS_SUCCESS, \<lparr>low = 0, high = 0\<rparr>)"
  using assms by (auto simp: get_vp_register_def get_seg_memcpy_def Let_def)

theorem get_vp_register_descriptor_tables_zero_witness:
  "base (ldt (env cpu_vtl0)) = 0x7000
   \<and> get_vp_register x86 vsm0 world_vtl HV_X64_REGISTER_LDTR \<lparr>low = 5, high = 6\<rparr> 0 =
       Inr (HV_STATUS_SUCCESS, \<lparr>low = 0, high = 0\<rparr>)"
  using get_vp_register_descriptor_tables_zero
          [of world_vtl 0 cpu_vtl0 HV_X64_REGISTER_LDTR x86 vsm0 "\<lparr>low = 5, high = 6\<rparr>"]
  by (simp add: world_vtl_def cpu_vtl0_def env_vtl0_def)


section \<open>Theorems: enabling a VTL for the partition\<close>








section \<open>Theorems: VTL call and return\<close>

text \<open>
  What \<open>hyperv_hcall_vtl_call\<close> does from a VTL above 1: it returns -1 and changes nothing
  when the CPU of the next VTL exists, and dereferences a null pointer when it does not.
\<close>

lemma hyperv_hcall_vtl_call_above_vtl1:
  assumes "1 < a"
  shows "(cpus w (a + 1) = None \<longrightarrow> hyperv_hcall_vtl_call Q V w a = Inl NullDeref)
       \<and> (\<forall>x. cpus w (a + 1) = Some x \<and> hyperv_vp_index x = word_of_int (a + 1) \<longrightarrow>
             hyperv_hcall_vtl_call Q V w a = Inr (- 1, w))"
  using assms
  by (auto simp: hyperv_hcall_vtl_call_def hyperv_get_next_vtl_def hyperv_vsm_vcpu_def
        get_active_vtl_def)

text \<open>
  C5 fails on the code for VTL_RETURN. \<open>hyperv_hcall_vtl_return\<close> has no path that rejects
  the call: whenever it returns, it returns \<open>EXCP_HALTED\<close> after the switch; and when no
  CPU has the index one below the caller's, as for a caller in VTL0, it dereferences a
  null pointer instead of returning an error.
\<close>

theorem hyperv_hcall_vtl_return_never_rejects:
  "(\<forall>r w'. hyperv_hcall_vtl_return Q V w a = Inr (r, w') \<longrightarrow> r = EXCP_HALTED Q)
   \<and> (cpus w (a - 1) = None \<longrightarrow> hyperv_hcall_vtl_return Q V w a = Inl NullDeref)"
  by (auto simp: hyperv_hcall_vtl_return_def hyperv_get_prev_vtl_def hyperv_vsm_vcpu_def
        get_active_vtl_def split: sum.splits option.splits if_splits)

theorem hyperv_hcall_vtl_return_never_rejects_witness:
  "hyperv_hcall_vtl_return x86 vsm0 world_vtl 0 = Inl NullDeref"
  using hyperv_hcall_vtl_return_never_rejects [of x86 vsm0 world_vtl 0]
  by (simp add: world_vtl_def)



section \<open>Theorems: the state copied by a VTL switch\<close>

lemma copy_array_apply: "copy_array n src dst i = (if i < n then src i else dst i)"
  by (induction n) auto

lemma hyperv_sync_shared_vtl_state_result:
  assumes "cpus w a = Some ca" and "cpus w n = Some cn" and "vp_vsm cn = Some v"
  shows "hyperv_sync_shared_vtl_state Q V True w a n =
           Inr (w\<lparr>cpus := (cpus w)(n \<mapsto>
                  cn\<lparr>vp_vsm := Some (v\<lparr>priv_state := save_priv_state Q V (env cn) (priv_state v)\<rparr>),
                     apic_base := apic_base cn OR MSR_IA32_APICBASE_BSP Q,
                     env := switched_env Q V (env ca) (env cn) (priv_state v)\<rparr>)\<rparr>)"
  using assms
  by (simp add: hyperv_sync_shared_vtl_state_def hyperv_save_priv_vtl_state_def
        hyperv_restore_priv_vtl_state_def switched_env_def Let_def)

lemma switched_env_from_source:
  "dr (switched_env Q V e_src e_dst ps) = dr e_src"
  "other_state (switched_env Q V e_src e_dst ps) = other_state e_src"
  "msr_hv_vapic (switched_env Q V e_src e_dst ps) = msr_hv_vapic e_src"
  "r \<noteq> R_ESP \<Longrightarrow> regs (switched_env Q V e_src e_dst ps) r = regs e_src r"
  "i \<noteq> 0 \<Longrightarrow> i \<noteq> 3 \<Longrightarrow> i \<noteq> 4 \<Longrightarrow> cr (switched_env Q V e_src e_dst ps) i = cr e_src i"
  by (simp_all add: switched_env_def hyperv_set_vtl_cpu_state_def restore_priv_msrs_def)

lemma switched_env_segment_bases:
  "gsbase (switched_env Q V e_src e_dst ps) = base (segs e_dst R_GS)"
  "fsbase (switched_env Q V e_src e_dst ps) = base (segs e_dst R_FS)"
  by (simp_all add: switched_env_def hyperv_set_vtl_cpu_state_def restore_priv_context_def
        save_priv_state_def hyperv_get_seg_def)


lemma switched_env_retained:
  "kernelgsbase (switched_env Q V e_src e_dst ps) = kernelgsbase e_dst"
  "tsc_aux (switched_env Q V e_src e_dst ps) = tsc_aux e_dst"
  "sysenter_cs (switched_env Q V e_src e_dst ps) = sysenter_cs e_dst"
  "sysenter_esp (switched_env Q V e_src e_dst ps) = sysenter_esp e_dst"
  "sysenter_eip (switched_env Q V e_src e_dst ps) = sysenter_eip e_dst"
  "star (switched_env Q V e_src e_dst ps) = star e_dst"
  "lstar (switched_env Q V e_src e_dst ps) = lstar e_dst"
  "cstar (switched_env Q V e_src e_dst ps) = cstar e_dst"
  "fmask (switched_env Q V e_src e_dst ps) = fmask e_dst"
  "msr_hv_synic_control (switched_env Q V e_src e_dst ps) = msr_hv_synic_control e_dst"
  "msr_hv_synic_evt_page (switched_env Q V e_src e_dst ps) = msr_hv_synic_evt_page e_dst"
  "msr_hv_synic_msg_page (switched_env Q V e_src e_dst ps) = msr_hv_synic_msg_page e_dst"
  "msr_hv_guest_os_id (switched_env Q V e_src e_dst ps) = msr_hv_guest_os_id e_dst"
  "msr_hv_hypercall (switched_env Q V e_src e_dst ps) = msr_hv_hypercall e_dst"
  "msr_hv_tsc (switched_env Q V e_src e_dst ps) = msr_hv_tsc e_dst"
  "exception_nr (switched_env Q V e_src e_dst ps) = exception_nr e_dst"
  "interrupt_injected (switched_env Q V e_src e_dst ps) = interrupt_injected e_dst"
  "soft_interrupt (switched_env Q V e_src e_dst ps) = soft_interrupt e_dst"
  "exception_pending (switched_env Q V e_src e_dst ps) = exception_pending e_dst"
  "exception_injected (switched_env Q V e_src e_dst ps) = exception_injected e_dst"
  "has_error_code (switched_env Q V e_src e_dst ps) = has_error_code e_dst"
  "exception_has_payload (switched_env Q V e_src e_dst ps) = exception_has_payload e_dst"
  "exception_payload (switched_env Q V e_src e_dst ps) = exception_payload e_dst"
  "triple_fault_pending (switched_env Q V e_src e_dst ps) = triple_fault_pending e_dst"
  "ins_len (switched_env Q V e_src e_dst ps) = ins_len e_dst"
  "sipi_vector (switched_env Q V e_src e_dst ps) = sipi_vector e_dst"
  "eip (switched_env Q V e_src e_dst ps) = eip e_dst"
  "regs (switched_env Q V e_src e_dst ps) R_ESP = regs e_dst R_ESP"
  "eflags (switched_env Q V e_src e_dst ps) = eflags e_dst"
  "efer (switched_env Q V e_src e_dst ps) = efer e_dst"
  "pat (switched_env Q V e_src e_dst ps) = pat e_dst"
  "cr (switched_env Q V e_src e_dst ps) 0 = cr e_dst 0"
  "cr (switched_env Q V e_src e_dst ps) 3 = cr e_dst 3"
  "cr (switched_env Q V e_src e_dst ps) 4 = cr e_dst 4"
  by (simp_all add: switched_env_def hyperv_set_vtl_cpu_state_def restore_priv_msrs_def
        restore_priv_context_def save_priv_state_def)

lemma switched_env_retained_arrays:
  "i < HV_SINT_COUNT V \<Longrightarrow>
     msr_hv_synic_sint (switched_env Q V e_src e_dst ps) i = msr_hv_synic_sint e_dst i"
  "i < HV_STIMER_COUNT V \<Longrightarrow>
     msr_hv_stimer_config (switched_env Q V e_src e_dst ps) i = msr_hv_stimer_config e_dst i"
  "i < HV_STIMER_COUNT V \<Longrightarrow>
     msr_hv_stimer_count (switched_env Q V e_src e_dst ps) i = msr_hv_stimer_count e_dst i"
  by (simp_all add: switched_env_def hyperv_set_vtl_cpu_state_def restore_priv_msrs_def
        save_priv_state_def copy_array_apply)

lemma switched_env_segments:
  "segs (switched_env Q V e_src e_dst ps) s =
     hyperv_set_seg Q (segs e_src s) (hyperv_get_seg Q (segs e_dst s))"
  "selector (segs (switched_env Q V e_src e_dst ps) s) = selector (segs e_dst s)"
  "base (segs (switched_env Q V e_src e_dst ps) s) = base (segs e_dst s)"
  "limit (segs (switched_env Q V e_src e_dst ps) s) = limit (segs e_dst s)"
  by (cases s; simp add: switched_env_def hyperv_set_vtl_cpu_state_def restore_priv_msrs_def
        restore_priv_context_def save_priv_state_def hyperv_set_seg_def hyperv_get_seg_def)+


text \<open>
  C4 fails on the code. When the source CPU and the destination CPU exist and the
  destination has its VSM state, \<open>hyperv_sync_shared_vtl_state\<close> under the iothread lock
  leaves in the destination: the debug register \<open>DR7\<close> of the source (it is saved but not
  restored); as \<open>gsbase\<close> and \<open>fsbase\<close> the bases of the destination's own GS and FS
  segments, not its former \<open>gsbase\<close> and \<open>fsbase\<close> (they are restored and then
  overwritten by \<open>hyperv_set_vtl_cpu_state\<close>). The kernel gs base, the control registers
  0, 3 and 4, the SynIC and timer MSRs, the pending exception state, the instruction
  pointer, the stack pointer and the flags keep the destination's values; the other
  general registers, \<open>CR2\<close> and the state this file does not name are the source's.
\<close>

theorem hyperv_sync_shared_vtl_state_fields:
  assumes "cpus w a = Some ca" and "cpus w n = Some cn" and "vp_vsm cn = Some v"
  shows "\<exists>w' cn'. hyperv_sync_shared_vtl_state Q V True w a n = Inr w'
           \<and> cpus w' n = Some cn'
           \<and> dr (env cn') 7 = dr (env ca) 7
           \<and> gsbase (env cn') = base (segs (env cn) R_GS)
           \<and> fsbase (env cn') = base (segs (env cn) R_FS)
           \<and> kernelgsbase (env cn') = kernelgsbase (env cn)
           \<and> cr (env cn') 0 = cr (env cn) 0
           \<and> cr (env cn') 3 = cr (env cn) 3
           \<and> cr (env cn') 4 = cr (env cn) 4
           \<and> cr (env cn') 2 = cr (env ca) 2
           \<and> msr_hv_synic_control (env cn') = msr_hv_synic_control (env cn)
           \<and> msr_hv_synic_evt_page (env cn') = msr_hv_synic_evt_page (env cn)
           \<and> msr_hv_synic_msg_page (env cn') = msr_hv_synic_msg_page (env cn)
           \<and> (\<forall>i < HV_SINT_COUNT V.
                 msr_hv_synic_sint (env cn') i = msr_hv_synic_sint (env cn) i)
           \<and> (\<forall>i < HV_STIMER_COUNT V.
                 msr_hv_stimer_config (env cn') i = msr_hv_stimer_config (env cn) i
                 \<and> msr_hv_stimer_count (env cn') i = msr_hv_stimer_count (env cn) i)
           \<and> exception_nr (env cn') = exception_nr (env cn)
           \<and> exception_pending (env cn') = exception_pending (env cn)
           \<and> exception_injected (env cn') = exception_injected (env cn)
           \<and> interrupt_injected (env cn') = interrupt_injected (env cn)
           \<and> eip (env cn') = eip (env cn)
           \<and> regs (env cn') R_ESP = regs (env cn) R_ESP
           \<and> eflags (env cn') = eflags (env cn)
           \<and> (\<forall>r. r \<noteq> R_ESP \<longrightarrow> regs (env cn') r = regs (env ca) r)
           \<and> other_state (env cn') = other_state (env ca)"
proof -
  let ?cn' = "cn\<lparr>vp_vsm := Some (v\<lparr>priv_state := save_priv_state Q V (env cn) (priv_state v)\<rparr>),
                 apic_base := apic_base cn OR MSR_IA32_APICBASE_BSP Q,
                 env := switched_env Q V (env ca) (env cn) (priv_state v)\<rparr>"
  let ?w' = "w\<lparr>cpus := (cpus w)(n \<mapsto> ?cn')\<rparr>"
  have res: "hyperv_sync_shared_vtl_state Q V True w a n = Inr ?w'"
    using assms by (rule hyperv_sync_shared_vtl_state_result)
  have cpu: "cpus ?w' n = Some ?cn'" by simp
  have e: "env ?cn' = switched_env Q V (env ca) (env cn) (priv_state v)" by simp
  show ?thesis
    apply (rule exI [of _ ?w'], rule exI [of _ ?cn'])
    apply (intro conjI allI impI)
    apply (rule res)
    apply (rule cpu)
    apply (simp_all only: e switched_env_from_source switched_env_segment_bases
             switched_env_retained switched_env_retained_arrays)
    apply (simp_all add: switched_env_from_source)
    done
qed

theorem hyperv_sync_shared_vtl_state_fields_witness:
  "\<exists>w' cn'. hyperv_sync_shared_vtl_state x86 vsm0 True world_vtl 0 1 = Inr w'
      \<and> cpus w' 1 = Some cn'
      \<and> dr (env cpu_vtl0) 7 = 0x455 \<and> dr (env cpu_vtl1) 7 = 0x400 \<and> dr (env cn') 7 = 0x455
      \<and> gsbase (env cpu_vtl1) = 0x1000 \<and> gsbase (env cn') = 0x2000
      \<and> kernelgsbase (env cpu_vtl1) = 0x3000 \<and> kernelgsbase (env cn') = 0x3000
      \<and> eip (env cn') = 0x8000
      \<and> regs (env cn') R_EAX = 0x11"
proof -
  have a: "cpus world_vtl 0 = Some cpu_vtl0" and n: "cpus world_vtl 1 = Some cpu_vtl1"
    and v: "vp_vsm cpu_vtl1 = Some (vp_vsm_realize 1)"
    by (simp_all add: world_vtl_def cpu_vtl1_def)
  from hyperv_sync_shared_vtl_state_fields [OF a n v, of x86 vsm0]
  obtain w' cn' where r: "hyperv_sync_shared_vtl_state x86 vsm0 True world_vtl 0 1 = Inr w'"
      "cpus w' 1 = Some cn'"
      "dr (env cn') 7 = dr (env cpu_vtl0) 7"
      "gsbase (env cn') = base (segs (env cpu_vtl1) R_GS)"
      "kernelgsbase (env cn') = kernelgsbase (env cpu_vtl1)"
      "eip (env cn') = eip (env cpu_vtl1)"
      "\<forall>r. r \<noteq> R_ESP \<longrightarrow> regs (env cn') r = regs (env cpu_vtl0) r"
    by blast
  have vals: "dr (env cpu_vtl0) 7 = 0x455" "dr (env cpu_vtl1) 7 = 0x400"
      "gsbase (env cpu_vtl1) = 0x1000" "base (segs (env cpu_vtl1) R_GS) = 0x2000"
      "kernelgsbase (env cpu_vtl1) = 0x3000" "eip (env cpu_vtl1) = 0x8000"
      "regs (env cpu_vtl0) R_EAX = 0x11"
    by (simp_all add: cpu_vtl0_def cpu_vtl1_def env_vtl0_def env_vtl1_def env_zero_def
          seg_zero_def)
  from r(7) have "regs (env cn') R_EAX = regs (env cpu_vtl0) R_EAX" by simp
  with r vals show ?thesis by auto
qed


section \<open>Theorems: enabling a VTL for a virtual processor\<close>



















end
